theory Spec2Isabelle
  imports Complex_Main "HOL-Library.Sublist"
begin

section \<open>Values read from the pending file\<close>

text \<open>
  \<^verbatim>\<open>json.loads\<close> returns dictionaries, lists, strings, integers, floats, booleans and
  \<^verbatim>\<open>None\<close>; the program types the record as \<^verbatim>\<open>Dict[str, Any]\<close> and never checks a
  value's type. A dictionary is an association list read with \<open>map_of\<close>. Python's
  \<^verbatim>\<open>None\<close> is \<open>JNull\<close>. A string is a list of code points below 256. A float is
  \<open>m * 2 ^ e\<close>, an infinity or a NaN; only its truth value is computed here.
\<close>

datatype pyfloat = Float_fin int int | Float_inf bool | Float_nan

datatype json =
    JNull
  | JBool bool
  | JInt int
  | JFloat pyfloat
  | JStr string
  | JArr "json list"
  | JObj "(string \<times> json) list"

text \<open>Every exception below is a subclass of \<^verbatim>\<open>Exception\<close>; \<open>RequestException\<close> stands for
  \<^verbatim>\<open>requests.RequestException\<close> and its subclasses, \<open>OtherException\<close> for any class not
  named here.\<close>

datatype pyexc =
    RequestException
  | TypeError
  | KeyError
  | AttributeError
  | InvalidOperation
  | DivisionByZero
  | Overflow
  | OtherException

text \<open>The truth value of an object, as \<^verbatim>\<open>if x:\<close> and \<^verbatim>\<open>not x\<close> compute it.\<close>

fun truthy :: "json \<Rightarrow> bool" where
  "truthy JNull = False"
| "truthy (JBool b) = b"
| "truthy (JInt n) = (n \<noteq> 0)"
| "truthy (JFloat (Float_fin m e)) = (m \<noteq> 0)"
| "truthy (JFloat (Float_inf s)) = True"
| "truthy (JFloat Float_nan) = True"
| "truthy (JStr s) = (s \<noteq> [])"
| "truthy (JArr xs) = (xs \<noteq> [])"
| "truthy (JObj kvs) = (kvs \<noteq> [])"

text \<open>\<^verbatim>\<open>k in s\<close> for two strings: \<open>k\<close> occurs in \<open>s\<close> as a contiguous run.\<close>

fun str_contains :: "string \<Rightarrow> string \<Rightarrow> bool" where
  "str_contains k [] = (k = [])"
| "str_contains k (c # cs) = (prefix k (c # cs) \<or> str_contains k cs)"

text \<open>\<^verbatim>\<open>k in c\<close> with a string \<open>k\<close>: key membership in a dictionary, element membership
  in a list, substring test in a string, \<^verbatim>\<open>TypeError\<close> for a value that is not iterable.\<close>

fun py_contains :: "json \<Rightarrow> string \<Rightarrow> pyexc + bool" where
  "py_contains (JObj kvs) k = Inr (k \<in> set (map fst kvs))"
| "py_contains (JArr xs) k = Inr (JStr k \<in> set xs)"
| "py_contains (JStr s) k = Inr (str_contains k s)"
| "py_contains _ k = Inl TypeError"


text \<open>\<^verbatim>\<open>c[k]\<close> with a string \<open>k\<close>: \<^verbatim>\<open>KeyError\<close> for a missing key, \<^verbatim>\<open>TypeError\<close> where \<open>c\<close>
  is a list or a string (their indices are integers) or is not subscriptable.\<close>

fun py_getitem :: "json \<Rightarrow> string \<Rightarrow> pyexc + json" where
  "py_getitem (JObj kvs) k = (case map_of kvs k of None \<Rightarrow> Inl KeyError | Some v \<Rightarrow> Inr v)"
| "py_getitem _ k = Inl TypeError"

text \<open>\<^verbatim>\<open>c.get(k, d)\<close>: only a dictionary has the method.\<close>

fun py_get :: "json \<Rightarrow> string \<Rightarrow> json \<Rightarrow> pyexc + json" where
  "py_get (JObj kvs) k d = Inr (case map_of kvs k of None \<Rightarrow> d | Some v \<Rightarrow> v)"
| "py_get _ k d = Inl AttributeError"

text \<open>\<^verbatim>\<open>s.strip()\<close>: the characters removed at both ends are those Python's
  \<^verbatim>\<open>str.isspace\<close> accepts; below 256 these are 9 to 13, 28 to 32, 133 and 160.\<close>

definition py_isspace :: "char \<Rightarrow> bool" where
  "py_isspace c = (let n = (of_char c :: nat) in
     (9 \<le> n \<and> n \<le> 13) \<or> (28 \<le> n \<and> n \<le> 32) \<or> n = 133 \<or> n = 160)"

definition strip :: "string \<Rightarrow> string" where
  "strip s = rev (dropWhile py_isspace (rev (dropWhile py_isspace s)))"

section \<open>Decimal arithmetic\<close>

text \<open>
  \<^verbatim>\<open>decimal.Decimal\<close> under the default context, which the program never changes:
  precision 28, rounding \<^verbatim>\<open>ROUND_HALF_EVEN\<close>, \<^verbatim>\<open>Emax = 999999\<close>, \<^verbatim>\<open>Emin = -999999\<close>,
  \<^verbatim>\<open>clamp = 0\<close>, traps on \<^verbatim>\<open>InvalidOperation\<close>, \<^verbatim>\<open>DivisionByZero\<close> and \<^verbatim>\<open>Overflow\<close>.
  A finite number is sign, coefficient and exponent: \<open>(-1) ^ sign * coefficient * 10 ^ exponent\<close>.
\<close>

datatype decimal =
    Finite bool nat int
  | Infinity bool
  | NaN bool nat
  | SNaN bool nat

definition prec :: nat where "prec = 28"
definition Emax :: int where "Emax = 999999"
definition Emin :: int where "Emin = - 999999"
definition Etiny :: int where "Etiny = Emin - int prec + 1"
definition Etop :: int where "Etop = Emax - int prec + 1"

text \<open>The number of decimal digits of a coefficient, \<^verbatim>\<open>len(str(n))\<close>.\<close>

fun ndigits :: "nat \<Rightarrow> nat" where
  "ndigits n = (if n < 10 then 1 else Suc (ndigits (n div 10)))"

declare ndigits.simps [simp del]

text \<open>
  The rounding decision for a nonzero coefficient \<open>c\<close> cut to its leading \<open>keep\<close> digits
  (\<open>keep < ndigits c\<close>): 1 to round away from zero, 0 when the dropped digits are all
  zero, -1 to truncate. \<open>tail\<close> is the number formed by the dropped digits, \<open>unit\<close>
  the weight of the first of them.
\<close>

definition round_half_up :: "nat \<Rightarrow> nat \<Rightarrow> int" where
  "round_half_up c keep =
     (let dropped = ndigits c - keep; tail = c mod 10 ^ dropped; unit = 10 ^ (dropped - 1)
      in if 5 \<le> tail div unit then 1 else if tail = 0 then 0 else - 1)"

definition round_half_even :: "nat \<Rightarrow> nat \<Rightarrow> int" where
  "round_half_even c keep =
     (let dropped = ndigits c - keep; tail = c mod 10 ^ dropped; unit = 10 ^ (dropped - 1)
      in if tail = 5 * unit \<and> (keep = 0 \<or> even (c div 10 ^ dropped)) then - 1
         else round_half_up c keep)"

text \<open>A NaN keeps at most \<open>prec\<close> digits of its payload, the last ones.\<close>

definition fix_nan :: "bool \<Rightarrow> nat \<Rightarrow> decimal" where
  "fix_nan s p = NaN s (if ndigits p > prec then p mod 10 ^ prec else p)"

text \<open>
  Rounding a result to the context: a zero has its exponent clipped to the range from
  \<open>Etiny\<close> to \<open>Emax\<close>; a number whose adjusted exponent exceeds \<open>Emax\<close> raises
  \<^verbatim>\<open>Overflow\<close>; a coefficient of more than \<open>prec\<close> digits (or an exponent below \<open>Etiny\<close>)
  is rounded half-even. The signals \<^verbatim>\<open>Inexact\<close>, \<^verbatim>\<open>Rounded\<close>, \<^verbatim>\<open>Subnormal\<close>,
  \<^verbatim>\<open>Underflow\<close> and \<^verbatim>\<open>Clamped\<close> are not trapped and leave no trace.
\<close>

fun dec_fix :: "decimal \<Rightarrow> pyexc + decimal" where
  "dec_fix (Finite s c e) =
     (if c = 0 then Inr (Finite s 0 (min (max e Etiny) Emax))
      else
        let exp_min0 = int (ndigits c) + e - int prec in
        if exp_min0 > Etop then Inl Overflow
        else
          let exp_min = (if exp_min0 < Etiny then Etiny else exp_min0) in
          if e < exp_min then
            let digits0 = int (ndigits c) + e - exp_min;
                c1 = (if digits0 < 0 then 1 else c);
                digits = (if digits0 < 0 then 0 else nat digits0);
                changed = round_half_even c1 digits;
                coeff = c1 div 10 ^ (ndigits c1 - digits);
                bumped = 0 < changed \<and> ndigits (coeff + 1) > prec;
                coeff' = (if 0 < changed then (if bumped then (coeff + 1) div 10 else coeff + 1)
                          else coeff);
                exp_min' = (if bumped then exp_min + 1 else exp_min)
            in if exp_min' > Etop then Inl Overflow else Inr (Finite s coeff' exp_min')
          else Inr (Finite s c e))"
| "dec_fix (NaN s p) = Inr (fix_nan s p)"
| "dec_fix (SNaN s p) = Inr (SNaN s p)"
| "dec_fix (Infinity s) = Inr (Infinity s)"

text \<open>An exact quotient drops trailing zeros of its coefficient until the exponent reaches
  the ideal one (the difference of the operands' exponents).\<close>

function strip_zeros :: "nat \<Rightarrow> int \<Rightarrow> int \<Rightarrow> nat \<times> int" where
  "strip_zeros coeff expn ideal_exp =
     (if expn < ideal_exp \<and> coeff mod 10 = 0 then strip_zeros (coeff div 10) (expn + 1) ideal_exp
      else (coeff, expn))"
  by pat_completeness auto
termination
  by (relation "measure (\<lambda>(coeff, expn, ideal_exp). nat (ideal_exp - expn))") auto

declare strip_zeros.simps [simp del]

text \<open>
  \<^verbatim>\<open>self / other\<close>. A signalling NaN raises; a quiet NaN is returned; infinity by infinity
  raises; division by zero raises. Otherwise the dividend's coefficient is scaled so
  that the integer quotient has \<open>prec + 1\<close> or \<open>prec + 2\<close> digits, an inexact quotient
  ending in 0 or 5 is bumped by one so that the later rounding sees it as inexact,
  and the result is rounded to the context.
\<close>

fun truediv :: "decimal \<Rightarrow> decimal \<Rightarrow> pyexc + decimal" where
  "truediv (SNaN s p) other = Inl InvalidOperation"
| "truediv self (SNaN s p) = Inl InvalidOperation"
| "truediv (NaN s p) other = Inr (fix_nan s p)"
| "truediv self (NaN s p) = Inr (fix_nan s p)"
| "truediv (Infinity s1) (Infinity s2) = Inl InvalidOperation"
| "truediv (Infinity s1) (Finite s2 c2 e2) = Inr (Infinity (s1 \<noteq> s2))"
| "truediv (Finite s1 c1 e1) (Infinity s2) = Inr (Finite (s1 \<noteq> s2) 0 Etiny)"
| "truediv (Finite s1 c1 e1) (Finite s2 c2 e2) =
     (if c2 = 0 then (if c1 = 0 then Inl InvalidOperation else Inl DivisionByZero)
      else if c1 = 0 then dec_fix (Finite (s1 \<noteq> s2) 0 (e1 - e2))
      else
        let shift = int (ndigits c2) - int (ndigits c1) + int prec + 1;
            expn = e1 - e2 - shift;
            num = (if 0 \<le> shift then c1 * 10 ^ nat shift else c1);
            den = (if 0 \<le> shift then c2 else c2 * 10 ^ nat (- shift));
            coeff = num div den;
            remainder = num mod den
        in if remainder \<noteq> 0
           then dec_fix (Finite (s1 \<noteq> s2) (if coeff mod 5 = 0 then coeff + 1 else coeff) expn)
           else (case strip_zeros coeff expn (e1 - e2) of
                   (coeff', expn') \<Rightarrow> dec_fix (Finite (s1 \<noteq> s2) coeff' expn')))"

text \<open>The rational number a finite decimal denotes.\<close>

fun dec_value :: "decimal \<Rightarrow> rat option" where
  "dec_value (Finite s c e) =
     Some ((if s then - 1 else 1) * of_nat c *
           (if 0 \<le> e then 10 ^ nat e else 1 / 10 ^ nat (- e)))"
| "dec_value _ = None"

section \<open>The environment\<close>

text \<open>
  What the program reads from outside: whether the pending file exists and what
  \<^verbatim>\<open>json.loads(PENDING_FILE.read_text())\<close> gives; the \<^verbatim>\<open>Decimal\<close> constructor on a float, a
  string or a list (parsing and exact binary conversion are the library's);
  \<^verbatim>\<open>requests.post\<close> to the Blockstream endpoint; the \<^verbatim>\<open>bit\<close> library's
  \<^verbatim>\<open>PrivateKeyTestnet(wif)\<close> and \<^verbatim>\<open>key.send\<close>; and \<^verbatim>\<open>PENDING_FILE.unlink()\<close>.
\<close>

record response =
  status_code :: int
  resp_text :: string

datatype signing_key = Signing_key nat

datatype fee_arg = Default_fee | Absolute_fee json

type_synonym outputs = "(json \<times> decimal \<times> string) list"

record env =
  pending_exists :: bool
  pending_loads :: "pyexc + json"
  decimal_conv :: "json \<Rightarrow> pyexc + decimal"
  requests_post :: "json \<Rightarrow> pyexc + response"
  PrivateKeyTestnet :: "json \<Rightarrow> pyexc + signing_key"
  key_send :: "signing_key \<Rightarrow> outputs \<Rightarrow> fee_arg \<Rightarrow> pyexc + string"
  unlink :: "pyexc option"

section \<open>Observable behaviour\<close>

text \<open>
  A run leaves a trace: the lines it prints, the calls it makes to the outside and,
  as \<open>Fallback_called\<close>, each entry into \<^verbatim>\<open>python_fallback_broadcast\<close> with its three
  arguments. A printed line is named after its text and carries the values formatted
  into it.
\<close>

datatype msg =
    Banner_rule
  | Banner_title
  | No_pending
  | Error_loading pyexc
  | Missing_field string
  | Transaction_missing string
  | Raw_broadcasted string
  | Explorer string
  | Broadcast_failed int string
  | Network_error pyexc
  | Could_not_load_WIF pyexc
  | Broadcasting_explicit_fee
  | Broadcasting_bit
  | Signing_failed pyexc
  | Broadcasted_bit string
  | Removed_pending
  | Details_header
  | Details_from json
  | Details_to json
  | Details_amount json decimal
  | Details_fee json
  | Details_signed bool
  | Broadcasting_testnet
  | Attempting_raw
  | Using_fallback
  | Broadcast_success
  | Broadcast_failure

datatype event =
    Print msg
  | Http_post json
  | Fallback_called json json json
  | Key_load json
  | Key_send signing_key outputs fee_arg
  | Unlink

text \<open>A computation yields the events it emitted and either the exception that ended it
  or its value.\<close>

type_synonym 'a io = "event list \<times> (pyexc + 'a)"

definition ret :: "'a \<Rightarrow> 'a io" where
  "ret x = ([], Inr x)"

definition emit :: "event \<Rightarrow> unit io" where
  "emit ev = ([ev], Inr ())"

definition lift :: "pyexc + 'a \<Rightarrow> 'a io" where
  "lift r = ([], r)"

definition bind :: "'a io \<Rightarrow> ('a \<Rightarrow> 'b io) \<Rightarrow> 'b io" where
  "bind m f =
     (case m of
        (es, Inl x) \<Rightarrow> (es, Inl x)
      | (es, Inr v) \<Rightarrow> (case f v of (es', r) \<Rightarrow> (es @ es', r)))"

definition seq :: "unit io \<Rightarrow> 'a io \<Rightarrow> 'a io" where
  "seq m k = bind m (\<lambda>_. k)"

text \<open>\<^verbatim>\<open>try: m except Exception as e: h(e)\<close>; every exception of this model is caught.\<close>

definition try_except :: "'a io \<Rightarrow> (pyexc \<Rightarrow> 'a io) \<Rightarrow> 'a io" where
  "try_except m h =
     (case m of
        (es, Inl x) \<Rightarrow> (case h x of (es', r) \<Rightarrow> (es @ es', r))
      | (es, Inr v) \<Rightarrow> (es, Inr v))"

section \<open>The program\<close>

text \<open>\<^verbatim>\<open>Decimal(v)\<close>: an integer converts exactly, a boolean is the integer 0 or 1,
  \<^verbatim>\<open>None\<close> and a dictionary raise \<^verbatim>\<open>TypeError\<close>.\<close>

fun Decimal :: "env \<Rightarrow> json \<Rightarrow> pyexc + decimal" where
  "Decimal E (JInt n) = Inr (Finite (n < 0) (nat \<bar>n\<bar>) 0)"
| "Decimal E (JBool b) = Inr (Finite False (if b then 1 else 0) 0)"
| "Decimal E JNull = Inl TypeError"
| "Decimal E (JObj kvs) = Inl TypeError"
| "Decimal E v = decimal_conv E v"

definition satoshis_to_btc :: "env \<Rightarrow> json \<Rightarrow> pyexc + decimal" where
  "satoshis_to_btc E satoshis =
     (case Decimal E satoshis of
        Inl x \<Rightarrow> Inl x
      | Inr a \<Rightarrow> (case Decimal E (JInt 100000000) of
                    Inl x \<Rightarrow> Inl x
                  | Inr b \<Rightarrow> truediv a b))"

definition load_pending_transaction :: "env \<Rightarrow> json io" where
  "load_pending_transaction E =
     (if \<not> pending_exists E then seq (emit (Print No_pending)) (ret JNull)
      else try_except (lift (pending_loads E))
             (\<lambda>e. seq (emit (Print (Error_loading e))) (ret JNull)))"

text \<open>Either loop of the validator: the first name that is not \<^verbatim>\<open>in\<close> the container is
  printed and ends the function with \<^verbatim>\<open>False\<close>.\<close>

fun all_present :: "(string \<Rightarrow> msg) \<Rightarrow> json \<Rightarrow> string list \<Rightarrow> bool io" where
  "all_present report c [] = ret True"
| "all_present report c (r # rs) =
     bind (lift (py_contains c r)) (\<lambda>present.
       if \<not> present then seq (emit (Print (report r))) (ret False)
       else all_present report c rs)"

definition verify_transaction_data :: "json \<Rightarrow> bool io" where
  "verify_transaction_data tx_data =
     bind (all_present Missing_field tx_data [''transaction'', ''private_key_wif'', ''address''])
       (\<lambda>ok. if \<not> ok then ret False
         else bind (lift (py_getitem tx_data ''transaction'')) (\<lambda>tx.
                all_present Transaction_missing tx
                  [''from_address'', ''to_address'', ''amount_sats'']))"

text \<open>The exception handler names \<^verbatim>\<open>requests.RequestException\<close> only; any other exception
  of the call leaves the function.\<close>

definition broadcast_raw_transaction :: "env \<Rightarrow> json \<Rightarrow> string option io" where
  "broadcast_raw_transaction E raw_tx_hex =
     seq (emit (Http_post raw_tx_hex))
       (case requests_post E raw_tx_hex of
          Inl e \<Rightarrow>
            (if e = RequestException then seq (emit (Print (Network_error e))) (ret None)
             else lift (Inl e))
        | Inr response \<Rightarrow>
            (if status_code response = 200 then
               (let txid = strip (resp_text response) in
                seq (emit (Print (Raw_broadcasted txid)))
                  (seq (emit (Print (Explorer txid))) (ret (Some txid))))
             else seq (emit (Print (Broadcast_failed (status_code response) (resp_text response))))
                    (ret None)))"

definition python_fallback_broadcast :: "env \<Rightarrow> json \<Rightarrow> json \<Rightarrow> json \<Rightarrow> string option io" where
  "python_fallback_broadcast E transaction wif fee_sats =
     seq (emit (Fallback_called transaction wif fee_sats))
       (seq (emit (Key_load wif))
          (case PrivateKeyTestnet E wif of
             Inl e \<Rightarrow> seq (emit (Print (Could_not_load_WIF e))) (ret None)
           | Inr key \<Rightarrow>
               bind (lift (py_getitem transaction ''to_address'')) (\<lambda>to_address.
               bind (lift (py_getitem transaction ''amount_sats'')) (\<lambda>amount_sats.
               bind (lift (satoshis_to_btc E amount_sats)) (\<lambda>btc.
                 let outputs = [(to_address, btc, ''btc'')];
                     fee = (if truthy fee_sats then Absolute_fee fee_sats else Default_fee)
                 in
                 seq (emit (Print (if truthy fee_sats then Broadcasting_explicit_fee
                                   else Broadcasting_bit)))
                   (seq (emit (Key_send key outputs fee))
                      (case key_send E key outputs fee of
                         Inl e \<Rightarrow> seq (emit (Print (Signing_failed e))) (ret None)
                       | Inr tx_hex \<Rightarrow>
                           seq (emit (Print (Broadcasted_bit tx_hex)))
                             (seq (emit (Print (Explorer tx_hex))) (ret (Some tx_hex))))))))))"

definition cleanup_pending :: "env \<Rightarrow> unit io" where
  "cleanup_pending E =
     seq (emit Unlink)
       (case unlink E of
          None \<Rightarrow> emit (Print Removed_pending)
        | Some e \<Rightarrow> ret ())"

text \<open>\<^verbatim>\<open>if txid:\<close> on the result of a broadcaster: \<^verbatim>\<open>None\<close> and the empty string are false.\<close>

fun truthy_txid :: "string option \<Rightarrow> bool" where
  "truthy_txid None = False"
| "truthy_txid (Some s) = (s \<noteq> [])"

text \<open>The part of \<^verbatim>\<open>main\<close> from the comment "Otherwise use Python fallback" to the end.\<close>

definition main_fallback :: "env \<Rightarrow> json \<Rightarrow> json \<Rightarrow> unit io" where
  "main_fallback E tx_data tx =
     seq (emit (Print Using_fallback))
       (bind (lift (py_get tx ''fee_sats'' JNull)) (\<lambda>fee.
        bind (lift (py_get tx_data ''private_key_wif'' JNull)) (\<lambda>wif.
        bind (python_fallback_broadcast E tx wif fee) (\<lambda>txid.
          if truthy_txid txid then seq (cleanup_pending E) (emit (Print Broadcast_success))
          else emit (Print Broadcast_failure)))))"

text \<open>The part of \<^verbatim>\<open>main\<close> that prints the transaction details; an f-string evaluates its
  fields from left to right before the line is printed.\<close>

definition main_details :: "env \<Rightarrow> json \<Rightarrow> json \<Rightarrow> unit io" where
  "main_details E tx sig =
     seq (emit (Print Details_header))
       (bind (lift (py_getitem tx ''from_address'')) (\<lambda>from_address.
        seq (emit (Print (Details_from from_address)))
       (bind (lift (py_getitem tx ''to_address'')) (\<lambda>to_address.
        seq (emit (Print (Details_to to_address)))
       (bind (lift (py_getitem tx ''amount_sats'')) (\<lambda>amount_sats.
        bind (lift (py_getitem tx ''amount_sats'')) (\<lambda>amount_sats'.
        bind (lift (satoshis_to_btc E amount_sats')) (\<lambda>btc.
        seq (emit (Print (Details_amount amount_sats btc)))
       (bind (lift (py_get tx ''fee_sats'' (JInt 0))) (\<lambda>fee.
        seq (emit (Print (Details_fee fee)))
          (emit (Print (Details_signed (truthy sig))))))))))))))"

text \<open>The part of \<^verbatim>\<open>main\<close> from the comment "If Arduino-signed raw hex provided" on: the
  raw attempt when \<^verbatim>\<open>tx_data.get("raw_transaction_hex")\<close> is true, the \<^verbatim>\<open>return\<close> after a
  true \<^verbatim>\<open>txid\<close>, the fallback otherwise.\<close>

definition main_broadcast :: "env \<Rightarrow> json \<Rightarrow> json \<Rightarrow> unit io" where
  "main_broadcast E tx_data tx =
     bind (lift (py_get tx_data ''raw_transaction_hex'' JNull)) (\<lambda>raw.
       if truthy raw then
         seq (emit (Print Attempting_raw))
        (bind (lift (py_getitem tx_data ''raw_transaction_hex'')) (\<lambda>raw_tx_hex.
         bind (broadcast_raw_transaction E raw_tx_hex) (\<lambda>txid.
           if truthy_txid txid then cleanup_pending E
           else main_fallback E tx_data tx)))
       else main_fallback E tx_data tx)"

definition main :: "env \<Rightarrow> unit io" where
  "main E =
     seq (emit (Print Banner_rule))
    (seq (emit (Print Banner_title))
    (seq (emit (Print Banner_rule))
    (bind (load_pending_transaction E) (\<lambda>tx_data.
       if \<not> truthy tx_data then ret ()
       else
         bind (verify_transaction_data tx_data) (\<lambda>ok.
           if \<not> ok then ret ()
           else
             bind (lift (py_getitem tx_data ''transaction'')) (\<lambda>tx.
             bind (lift (py_get tx_data ''signature'' JNull)) (\<lambda>sig.
             seq (main_details E tx sig)
            (seq (emit (Print Broadcasting_testnet))
                 (main_broadcast E tx_data tx)))))))))"

text \<open>The events of a trace that are not printed lines.\<close>

fun is_print :: "event \<Rightarrow> bool" where
  "is_print (Print m) = True"
| "is_print _ = False"

definition calls :: "event list \<Rightarrow> event list" where
  "calls es = filter (\<lambda>ev. \<not> is_print ev) es"

fun is_fallback_call :: "event \<Rightarrow> bool" where
  "is_fallback_call (Fallback_called t w f) = True"
| "is_fallback_call _ = False"

fun is_http_post :: "event \<Rightarrow> bool" where
  "is_http_post (Http_post d) = True"
| "is_http_post _ = False"

fun is_key_send :: "event \<Rightarrow> bool" where
  "is_key_send (Key_send k outs f) = True"
| "is_key_send _ = False"

section \<open>Sample records and environments\<close>

text \<open>The record of the specification's scenarios, with a given amount and further
  top-level entries, and an environment in which the pending file holds a given
  value, the endpoint answers every post with a given outcome, every WIF loads and
  \<^verbatim>\<open>key.send\<close> has a given outcome.\<close>

definition sample_tx :: "json \<Rightarrow> json" where
  "sample_tx amount =
     JObj [(''from_address'', JStr ''A''), (''to_address'', JStr ''B''), (''amount_sats'', amount)]"

definition sample_record :: "json \<Rightarrow> (string \<times> json) list \<Rightarrow> json" where
  "sample_record amount extra =
     JObj ([(''transaction'', sample_tx amount), (''private_key_wif'', JStr ''K''),
            (''address'', JStr ''A'')] @ extra)"

definition sample_env :: "json \<Rightarrow> pyexc + response \<Rightarrow> pyexc + string \<Rightarrow> env" where
  "sample_env pending posted sent =
     \<lparr> pending_exists = True, pending_loads = Inr pending,
       decimal_conv = (\<lambda>v. Inl InvalidOperation),
       requests_post = (\<lambda>d. posted),
       PrivateKeyTestnet = (\<lambda>w. Inr (Signing_key 0)),
       key_send = (\<lambda>k outs f. sent),
       unlink = None \<rparr>"

section \<open>Satoshi conversion\<close>

lemma ndigits_pos: "0 < ndigits n"
  by (subst ndigits.simps) simp

lemma ndigits_le: "n < 10 ^ Suc k \<Longrightarrow> ndigits n \<le> Suc k"
proof (induction k arbitrary: n)
  case 0
  then show ?case by (subst ndigits.simps) simp
next
  case (Suc k)
  have "n div 10 < 10 ^ Suc k"
    using Suc.prems by (simp add: less_mult_imp_div_less)
  then have "ndigits (n div 10) \<le> Suc k" by (rule Suc.IH)
  then show ?case by (subst ndigits.simps) simp
qed

lemma ndigits_numeral:
  "ndigits (numeral k) = (if numeral k < (10::nat) then 1 else Suc (ndigits (numeral k div 10)))"
  by (rule ndigits.simps)

lemma ndigits_one: "ndigits 1 = 1" "ndigits (Suc 0) = 1"
  by (simp_all add: ndigits.simps)

lemma ndigits_100000000: "ndigits 100000000 = 9"
  by (simp add: ndigits_numeral ndigits_one)

lemma strip_zeros_numeral:
  "strip_zeros (numeral k) e i =
     (if e < i \<and> numeral k mod (10::nat) = 0 then strip_zeros (numeral k div 10) (e + 1) i
      else (numeral k, e))"
  by (rule strip_zeros.simps)

lemma strip_zeros_one: "strip_zeros (Suc 0) e i = (Suc 0, e)" "strip_zeros 1 e i = (1, e)"
  by (simp_all add: strip_zeros.simps)

lemmas dec_eval = strip_zeros_one satoshis_to_btc_def Let_def prec_def Etop_def Etiny_def
  Emax_def Emin_def ndigits_numeral ndigits_one strip_zeros_numeral round_half_even_def
  round_half_up_def

text \<open>What the loop over trailing zeros returns: the same number, with an exponent that
  reached the ideal one or a coefficient that no longer ends in 0.\<close>

lemma strip_zeros_spec:
  "e \<le> i \<Longrightarrow> strip_zeros c e i = (c', e') \<Longrightarrow>
     e \<le> e' \<and> e' \<le> i \<and> c = c' * 10 ^ nat (e' - e) \<and> (e' = i \<or> c' mod 10 \<noteq> 0)"
proof (induction c e i rule: strip_zeros.induct)
  case (1 coeff expn ideal_exp)
  show ?case
  proof (cases "expn < ideal_exp \<and> coeff mod 10 = 0")
    case True
    then have eq: "strip_zeros (coeff div 10) (expn + 1) ideal_exp = (c', e')"
      using "1.prems"(2) by (subst (asm) strip_zeros.simps) simp
    have le: "expn + 1 \<le> ideal_exp" using True by simp
    note IH = "1.IH"[OF True le eq]
    have c10: "coeff = 10 * (coeff div 10)" using True by presburger
    have n: "nat (e' - expn) = Suc (nat (e' - (expn + 1)))" using IH by linarith
    have "coeff = c' * 10 ^ nat (e' - expn)"
      using IH c10 unfolding n by simp
    then show ?thesis using IH by simp
  next
    case False
    then have "c' = coeff" "e' = expn"
      using "1.prems"(2) by (subst (asm) strip_zeros.simps; simp)+
    then show ?thesis using False "1.prems"(1) by auto
  qed
qed

text \<open>A positive integer of at most 28 digits divided by \<open>10 ^ 8\<close>: the quotient is exact,
  its coefficient has at most as many digits as the dividend, nothing is rounded.\<close>

lemma int_quotient_exact:
  assumes m0: "0 < m" and m28: "m < 10 ^ 28"
  shows "\<exists>c e. truediv (Finite False m 0) (Finite False 100000000 0) = Inr (Finite False c e)
           \<and> e \<le> 0 \<and> (of_nat c :: rat) = of_nat m / 100000000 * 10 ^ nat (- e)"
proof -
  define d where "d = ndigits m"
  have d28: "d \<le> 28" unfolding d_def using ndigits_le[of m 27] m28 by simp
  define j where "j = 30 - d"
  have j2: "2 \<le> j" "j + d = 30" unfolding j_def using d28 by simp_all
  have shift: "int (ndigits 100000000) - int (ndigits m) + int prec + 1 = int (j + 8)"
    using j2 d28 unfolding ndigits_100000000 d_def[symmetric] prec_def by simp
  have num: "m * 10 ^ (j + 8) = (m * 10 ^ j) * 100000000"
    by (simp add: power_add)
  have q: "(m * 10 ^ (j + 8)) div 100000000 = m * 10 ^ j"
    and r: "(m * 10 ^ (j + 8)) mod 100000000 = 0"
    unfolding num by simp_all
  obtain c e where sz: "strip_zeros (m * 10 ^ j) (- int (j + 8)) 0 = (c, e)"
    by (cases "strip_zeros (m * 10 ^ j) (- int (j + 8)) 0")
  have spec0: "- int (j + 8) \<le> e \<and> e \<le> 0
      \<and> m * 10 ^ j = c * 10 ^ nat (e - (- int (j + 8))) \<and> (e = 0 \<or> c mod 10 \<noteq> 0)"
    by (rule strip_zeros_spec[OF _ sz]) simp
  have sub: "e - (- int (j + 8)) = e + int (j + 8)" by simp
  have spec: "- int (j + 8) \<le> e" "e \<le> 0" "m * 10 ^ j = c * 10 ^ nat (e + int (j + 8))"
     "e = 0 \<or> c mod 10 \<noteq> 0"
    using spec0 unfolding sub by blast+
  define k where "k = nat (e + int (j + 8))"
  have ek: "e = int k - int (j + 8)" unfolding k_def using spec(1) by simp
  have mk: "m * 10 ^ j = c * 10 ^ k" using spec(3) unfolding k_def .
  have c0: "0 < c" using mk m0 by (cases c) auto
  have jk: "j \<le> k"
  proof (rule ccontr)
    assume "\<not> j \<le> k"
    then obtain i where i: "j = k + Suc i" using less_imp_Suc_add by (metis not_le add_Suc_right)
    have "m * 10 ^ Suc i * 10 ^ k = c * 10 ^ k" using mk unfolding i by (simp add: power_add mult_ac)
    then have "c = m * 10 ^ Suc i" by simp
    then have "c mod 10 = 0" by simp
    moreover have "e \<noteq> 0" using ek i by simp
    ultimately show False using spec(4) by simp
  qed
  then obtain i where i: "k = j + i" using le_Suc_ex by blast
  have "m * 10 ^ j = c * 10 ^ i * 10 ^ j" using mk unfolding i by (simp add: power_add mult_ac)
  then have mc: "m = c * 10 ^ i" by simp
  have i8: "i \<le> 8" using ek spec(2) i by simp
  have "c \<le> m" unfolding mc by simp
  then have "c < 10 ^ Suc 27" using m28 by simp
  then have dc: "ndigits c \<le> 28" using ndigits_le[of c 27] by simp
  have fx: "dec_fix (Finite False c e) = Inr (Finite False c e)"
    using c0 dc spec(1,2) j2 d28
    by (simp add: Let_def prec_def Etop_def Etiny_def Emax_def Emin_def)
  have td: "truediv (Finite False m 0) (Finite False 100000000 0) = Inr (Finite False c e)"
    using m0 by (simp add: shift Let_def q r sz fx del: dec_fix.simps of_nat_add)
  have "(of_nat m :: rat) = of_nat c * 10 ^ i" unfolding mc by simp
  moreover have "nat (- e) = 8 - i" using ek i i8 by simp
  moreover have "(100000000::rat) = 10 ^ i * 10 ^ (8 - i)"
    using i8 by (simp add: power_add[symmetric])
  ultimately have "(of_nat c :: rat) = of_nat m / 100000000 * 10 ^ nat (- e)"
    by simp
  with td spec(2) show ?thesis by blast
qed

text \<open>
  C7 (amended). For every integer \<open>n\<close> with \<open>0 \<le> n < 10 ^ 28\<close> the conversion returns a
  finite decimal whose value is exactly \<open>n / 100000000\<close>; 150000 gives \<open>15 * 10 ^ -4\<close>
  (0.00150000), 1 gives \<open>1 * 10 ^ -8\<close> and 100000000 gives 1.
\<close>

theorem satoshis_to_btc_exact:
  assumes "0 \<le> n" and "n < 10 ^ 28"
  shows "(\<exists>c e. satoshis_to_btc E (JInt n) = Inr (Finite False c e)
            \<and> dec_value (Finite False c e) = Some (of_int n / 100000000))
       \<and> satoshis_to_btc E (JInt 150000) = Inr (Finite False 15 (- 4))
       \<and> satoshis_to_btc E (JInt 1) = Inr (Finite False 1 (- 8))
       \<and> satoshis_to_btc E (JInt 100000000) = Inr (Finite False 1 0)"
proof (intro conjI)
  show "\<exists>c e. satoshis_to_btc E (JInt n) = Inr (Finite False c e)
            \<and> dec_value (Finite False c e) = Some (of_int n / 100000000)"
  proof (cases "n = 0")
    case True
    then show ?thesis
      by (simp add: satoshis_to_btc_def Etiny_def Emax_def Emin_def prec_def)
  next
    case False
    define m where "m = nat n"
    have m: "0 < m" "m < 10 ^ 28" "n = int m" "\<bar>n\<bar> = int m"
      using assms False unfolding m_def by (simp_all add: nat_less_iff)
    obtain c e where ce: "truediv (Finite False m 0) (Finite False 100000000 0) = Inr (Finite False c e)"
      "e \<le> 0" "(of_nat c :: rat) = of_nat m / 100000000 * 10 ^ nat (- e)"
      using int_quotient_exact[OF m(1,2)] by blast
    have "satoshis_to_btc E (JInt n) = Inr (Finite False c e)"
      using ce(1) m by (simp add: satoshis_to_btc_def del: truediv.simps)
    moreover have "dec_value (Finite False c e) = Some (of_int n / 100000000)"
      using ce(2,3) m(3) by (cases "e = 0") simp_all
    ultimately show ?thesis by blast
  qed
  show "satoshis_to_btc E (JInt 150000) = Inr (Finite False 15 (- 4))"
    by (simp add: dec_eval)
  show "satoshis_to_btc E (JInt 1) = Inr (Finite False 1 (- 8))"
    by (simp add: dec_eval)
  show "satoshis_to_btc E (JInt 100000000) = Inr (Finite False 1 0)"
    by (simp add: dec_eval)
qed

text \<open>The whole supply of 21 million coins, in satoshis, converts to \<open>21000000\<close>.\<close>

theorem satoshis_to_btc_exact_witness:
  "(0::int) \<le> 2100000000000000 \<and> (2100000000000000::int) < 10 ^ 28
   \<and> satoshis_to_btc (sample_env JNull (Inl RequestException) (Inl OtherException))
        (JInt 2100000000000000) = Inr (Finite False 21000000 0)
   \<and> dec_value (Finite False 21000000 0) = Some (of_int 2100000000000000 / 100000000)"
  using satoshis_to_btc_exact[of 2100000000000000
      "sample_env JNull (Inl RequestException) (Inl OtherException)"]
  by (simp add: dec_eval)

text \<open>
  C7 as stated fails at \<open>n = 10 ^ 28 + 1\<close>: the exact quotient has 29 significant digits,
  the context keeps 28, and the result is \<open>10 ^ 20\<close>.
\<close>

theorem satoshis_to_btc_rounds_counterexample:
  "satoshis_to_btc (sample_env JNull (Inl RequestException) (Inl OtherException))
       (JInt 10000000000000000000000000001)
     = Inr (Finite False 1000000000000000000000000000 (- 7))
   \<and> dec_value (Finite False 1000000000000000000000000000 (- 7))
     \<noteq> Some (of_int 10000000000000000000000000001 / 100000000)"
proof -
  have d: "ndigits 10000000000000000000000000001 = 29"
    by (simp add: ndigits_numeral ndigits_one)
  have sz: "strip_zeros 100000000000000000000000000010 (- 9) 0
      = (10000000000000000000000000001, - 8)"
    by (simp add: strip_zeros_numeral)
  have td: "truediv (Finite False 10000000000000000000000000001 0) (Finite False 100000000 0)
      = dec_fix (Finite False 10000000000000000000000000001 (- 8))"
    by (simp add: d ndigits_100000000 prec_def sz Let_def del: dec_fix.simps)
  have rhe: "round_half_even 10000000000000000000000000001 28 = - 1"
    by (simp add: round_half_even_def round_half_up_def d Let_def)
  have fx: "dec_fix (Finite False 10000000000000000000000000001 (- 8))
      = Inr (Finite False 1000000000000000000000000000 (- 7))"
    by (simp add: d rhe Let_def prec_def Etop_def Etiny_def Emax_def Emin_def)
  have "satoshis_to_btc (sample_env JNull (Inl RequestException) (Inl OtherException))
       (JInt 10000000000000000000000000001)
     = Inr (Finite False 1000000000000000000000000000 (- 7))"
    by (simp add: satoshis_to_btc_def td fx del: truediv.simps dec_fix.simps)
  then show ?thesis by simp
qed

section \<open>Traces of the parts of a run\<close>

lemma fst_ret [simp]: "fst (ret x) = []" and snd_ret [simp]: "snd (ret x) = Inr x"
  by (simp_all add: ret_def)

lemma fst_emit [simp]: "fst (emit ev) = [ev]" and snd_emit [simp]: "snd (emit ev) = Inr ()"
  by (simp_all add: emit_def)

lemma fst_lift [simp]: "fst (lift r) = []" and snd_lift [simp]: "snd (lift r) = r"
  by (simp_all add: lift_def)

lemma fst_bind:
  "fst (bind m f) = fst m @ (case snd m of Inl x \<Rightarrow> [] | Inr v \<Rightarrow> fst (f v))"
  by (cases m) (auto simp: bind_def split: sum.splits prod.splits)

lemma snd_bind:
  "snd (bind m f) = (case snd m of Inl x \<Rightarrow> Inl x | Inr v \<Rightarrow> snd (f v))"
  by (cases m) (auto simp: bind_def split: sum.splits prod.splits)

lemma fst_seq: "fst (seq m k) = fst m @ (case snd m of Inl x \<Rightarrow> [] | Inr v \<Rightarrow> fst k)"
  by (simp add: seq_def fst_bind)

lemma snd_seq: "snd (seq m k) = (case snd m of Inl x \<Rightarrow> Inl x | Inr v \<Rightarrow> snd k)"
  by (simp add: seq_def snd_bind)

lemma fst_seq_emit [simp]: "fst (seq (emit ev) k) = ev # fst k"
  by (simp add: fst_seq)

lemma snd_seq_emit [simp]: "snd (seq (emit ev) k) = snd k"
  by (simp add: snd_seq)

lemma fst_bind_lift [simp]:
  "fst (bind (lift r) f) = (case r of Inl x \<Rightarrow> [] | Inr v \<Rightarrow> fst (f v))"
  by (simp add: fst_bind)

lemma snd_bind_lift [simp]:
  "snd (bind (lift r) f) = (case r of Inl x \<Rightarrow> Inl x | Inr v \<Rightarrow> snd (f v))"
  by (simp add: snd_bind)

lemma calls_Nil [simp]: "calls [] = []"
  and calls_append [simp]: "calls (xs @ ys) = calls xs @ calls ys"
  and calls_Print [simp]: "calls (Print m # xs) = calls xs"
  and calls_Http [simp]: "calls (Http_post d # xs) = Http_post d # calls xs"
  and calls_Fallback [simp]: "calls (Fallback_called t w f # xs) = Fallback_called t w f # calls xs"
  and calls_Key_load [simp]: "calls (Key_load w # xs) = Key_load w # calls xs"
  and calls_Key_send [simp]: "calls (Key_send k outs fa # xs) = Key_send k outs fa # calls xs"
  and calls_Unlink [simp]: "calls (Unlink # xs) = Unlink # calls xs"
  by (simp_all add: calls_def)

lemma set_calls: "set (calls es) = {ev \<in> set es. \<not> is_print ev}"
  by (auto simp: calls_def)

text \<open>Loading, validating and printing the details only print.\<close>

lemma calls_load [simp]: "calls (fst (load_pending_transaction E)) = []"
  by (cases "pending_loads E")
     (simp_all add: load_pending_transaction_def try_except_def lift_def seq_def bind_def
        emit_def ret_def)

lemma calls_all_present [simp]: "calls (fst (all_present report c rs)) = []"
  by (induction rs) (auto simp: fst_bind split: sum.splits)

lemma calls_verify [simp]: "calls (fst (verify_transaction_data tx_data)) = []"
  by (auto simp: verify_transaction_data_def fst_bind split: sum.splits)

lemma calls_details [simp]: "calls (fst (main_details E tx sig)) = []"
  by (auto simp: main_details_def split: sum.splits)

lemma all_present_JObj:
  "all_present report (JObj kvs) rs =
     (case find (\<lambda>r. r \<notin> set (map fst kvs)) rs of
        None \<Rightarrow> ([], Inr True)
      | Some r \<Rightarrow> ([Print (report r)], Inr False))"
  by (induction rs) (auto simp: bind_def lift_def seq_def emit_def ret_def)

lemma snd_cleanup [simp]: "snd (cleanup_pending E) = Inr ()"
  by (simp add: cleanup_pending_def split: option.splits)

lemma calls_cleanup [simp]: "calls (fst (cleanup_pending E)) = [Unlink]"
  by (simp add: cleanup_pending_def split: option.splits)

lemma calls_broadcast_raw [simp]:
  "calls (fst (broadcast_raw_transaction E h)) = [Http_post h]"
  by (simp add: broadcast_raw_transaction_def Let_def split: sum.splits)

lemma calls_fallback:
  "calls (fst (python_fallback_broadcast E t w f)) =
     Fallback_called t w f # Key_load w # filter is_key_send (fst (python_fallback_broadcast E t w f))"
  by (simp add: python_fallback_broadcast_def Let_def split: sum.splits)

lemma filter_key_send_not:
  "filter is_fallback_call (filter is_key_send es) = []"
  "filter is_http_post (filter is_key_send es) = []"
  "Unlink \<notin> set (filter is_key_send es)"
  "Http_post h \<notin> set (filter is_key_send es)"
  "Fallback_called a b c \<notin> set (filter is_key_send es)"
  by (induction es) (auto elim: is_key_send.elims)

lemma calls_main_fallback:
  "calls (fst (main_fallback E td tx)) =
     (case py_get tx ''fee_sats'' JNull of Inl x \<Rightarrow> []
      | Inr fee \<Rightarrow>
         (case py_get td ''private_key_wif'' JNull of Inl x \<Rightarrow> []
          | Inr wif \<Rightarrow>
              calls (fst (python_fallback_broadcast E tx wif fee)) @
              (case snd (python_fallback_broadcast E tx wif fee) of Inl x \<Rightarrow> []
               | Inr txid \<Rightarrow> if truthy_txid txid then [Unlink] else [])))"
  by (simp add: main_fallback_def fst_bind fst_seq split: sum.splits)

lemma calls_main_broadcast:
  "calls (fst (main_broadcast E td tx)) =
     (case py_get td ''raw_transaction_hex'' JNull of Inl x \<Rightarrow> []
      | Inr raw \<Rightarrow>
         if truthy raw then
           (case py_getitem td ''raw_transaction_hex'' of Inl x \<Rightarrow> []
            | Inr h \<Rightarrow>
                Http_post h #
                (case snd (broadcast_raw_transaction E h) of Inl x \<Rightarrow> []
                 | Inr txid \<Rightarrow> if truthy_txid txid then [Unlink]
                               else calls (fst (main_fallback E td tx))))
         else calls (fst (main_fallback E td tx)))"
  by (simp add: main_broadcast_def fst_bind split: sum.splits)

lemma main_reach:
  "calls (fst (main E)) = [] \<or>
   (\<exists>td tx. calls (fst (main E)) = calls (fst (main_broadcast E td tx))
            \<and> snd (main E) = snd (main_broadcast E td tx))"
  by (auto simp: main_def fst_bind snd_bind fst_seq snd_seq split: sum.splits)

lemma truthy_txid_iff: "truthy_txid r \<longleftrightarrow> (\<exists>t. r = Some t \<and> t \<noteq> [])"
  by (cases r) auto

lemma in_calls: "\<not> is_print ev \<Longrightarrow> ev \<in> set (calls es) \<longleftrightarrow> ev \<in> set es"
  by (simp add: set_calls)

lemma no_http_main_fallback: "Http_post h \<notin> set (calls (fst (main_fallback E td tx)))"
  by (auto simp: calls_main_fallback calls_fallback filter_key_send_not split: sum.splits if_splits)

lemma snd_main_broadcast_raw_ok:
  "py_get td ''raw_transaction_hex'' JNull = Inr raw \<Longrightarrow> truthy raw \<Longrightarrow>
   py_getitem td ''raw_transaction_hex'' = Inr h \<Longrightarrow>
   snd (broadcast_raw_transaction E h) = Inr r \<Longrightarrow> truthy_txid r \<Longrightarrow>
   snd (main_broadcast E td tx) = Inr ()"
  by (simp add: main_broadcast_def snd_bind)

lemma sats_1000: "satoshis_to_btc E (JInt 1000) = Inr (Finite False 1 (- 5))"
  by (simp add: dec_eval)

lemmas run_eval = main_def main_broadcast_def main_fallback_def main_details_def
  verify_transaction_data_def load_pending_transaction_def broadcast_raw_transaction_def
  python_fallback_broadcast_def cleanup_pending_def bind_def seq_def emit_def ret_def lift_def
  try_except_def sample_env_def sample_record_def sample_tx_def strip_def py_isspace_def Let_def

lemma run_raw_accepted:
  "main (sample_env (sample_record (JInt 1000) [(''raw_transaction_hex'', JStr ''deadbeef'')])
          (Inr \<lparr>status_code = 200, resp_text = ''abc123''\<rparr>) (Inl OtherException))
   = ([Print Banner_rule, Print Banner_title, Print Banner_rule, Print Details_header,
       Print (Details_from (JStr ''A'')), Print (Details_to (JStr ''B'')),
       Print (Details_amount (JInt 1000) (Finite False 1 (- 5))), Print (Details_fee (JInt 0)),
       Print (Details_signed False), Print Broadcasting_testnet, Print Attempting_raw,
       Http_post (JStr ''deadbeef''), Print (Raw_broadcasted ''abc123''),
       Print (Explorer ''abc123''), Unlink, Print Removed_pending], Inr ())"
  by (simp add: run_eval sats_1000)

section \<open>Valid records\<close>

lemma verify_JObj:
  "verify_transaction_data (JObj kvs) =
     (case find (\<lambda>r. r \<notin> set (map fst kvs)) [''transaction'', ''private_key_wif'', ''address''] of
        Some r \<Rightarrow> ([Print (Missing_field r)], Inr False)
      | None \<Rightarrow>
          (case map_of kvs ''transaction'' of
             None \<Rightarrow> ([], Inl KeyError)
           | Some tx \<Rightarrow>
               all_present Transaction_missing tx [''from_address'', ''to_address'', ''amount_sats'']))"
proof -
  have ap: "all_present Missing_field (JObj kvs) [''transaction'', ''private_key_wif'', ''address'']
      = (case find (\<lambda>r. r \<notin> set (map fst kvs)) [''transaction'', ''private_key_wif'', ''address''] of
           None \<Rightarrow> ([], Inr True) | Some r \<Rightarrow> ([Print (Missing_field r)], Inr False))"
    by (rule all_present_JObj)
  show ?thesis
    unfolding verify_transaction_data_def ap
    by (cases "find (\<lambda>r. r \<notin> set (map fst kvs)) [''transaction'', ''private_key_wif'', ''address'']")
       (simp_all add: bind_def lift_def ret_def split: option.splits del: all_present.simps find.simps)
qed

lemma load_existing:
  "pending_exists E \<Longrightarrow> pending_loads E = Inr v \<Longrightarrow> load_pending_transaction E = ([], Inr v)"
  by (simp add: load_pending_transaction_def try_except_def lift_def)




lemma key_present: "k \<in> set (map fst kvs) \<Longrightarrow> \<exists>v. map_of kvs k = Some v"
  by (cases "map_of kvs k") (auto simp: map_of_eq_None_iff)

text \<open>What the validator's \<^verbatim>\<open>True\<close> says about a dictionary whose transaction is a
  dictionary: all six keys are there, and nothing was printed.\<close>

lemma verify_True:
  assumes ok: "snd (verify_transaction_data (JObj kvs)) = Inr True"
    and tx: "map_of kvs ''transaction'' = Some (JObj tkvs)"
  shows "verify_transaction_data (JObj kvs) = ([], Inr True)"
    and "\<exists>v. map_of kvs ''private_key_wif'' = Some v"
    and "\<exists>v. map_of tkvs ''from_address'' = Some v"
    and "\<exists>v. map_of tkvs ''to_address'' = Some v"
    and "\<exists>v. map_of tkvs ''amount_sats'' = Some v"
proof -
  have top: "find (\<lambda>r. r \<notin> set (map fst kvs)) [''transaction'', ''private_key_wif'', ''address'']
      = None"
    using ok by (cases "find (\<lambda>r. r \<notin> set (map fst kvs))
                          [''transaction'', ''private_key_wif'', ''address'']")
                (simp_all only: verify_JObj option.case snd_conv sum.inject, simp_all)
  have v: "verify_transaction_data (JObj kvs)
      = (case find (\<lambda>f. f \<notin> set (map fst tkvs)) [''from_address'', ''to_address'', ''amount_sats''] of
           None \<Rightarrow> ([], Inr True) | Some r \<Rightarrow> ([Print (Transaction_missing r)], Inr False))"
    by (simp only: verify_JObj top tx option.case all_present_JObj)
  have nested: "find (\<lambda>f. f \<notin> set (map fst tkvs)) [''from_address'', ''to_address'', ''amount_sats'']
      = None"
    using ok unfolding v
    by (cases "find (\<lambda>f. f \<notin> set (map fst tkvs)) [''from_address'', ''to_address'', ''amount_sats'']")
       (simp_all only: option.case snd_conv sum.inject, simp_all)
  show "verify_transaction_data (JObj kvs) = ([], Inr True)"
    unfolding v nested by simp
  have "''private_key_wif'' \<in> set (map fst kvs)"
    using top unfolding find_None_iff by auto
  then show "\<exists>v. map_of kvs ''private_key_wif'' = Some v" by (rule key_present)
  have "''from_address'' \<in> set (map fst tkvs)" "''to_address'' \<in> set (map fst tkvs)"
    "''amount_sats'' \<in> set (map fst tkvs)"
    using nested unfolding find_None_iff by auto
  then show "\<exists>v. map_of tkvs ''from_address'' = Some v" "\<exists>v. map_of tkvs ''to_address'' = Some v"
    "\<exists>v. map_of tkvs ''amount_sats'' = Some v"
    by (simp_all only: key_present)
qed

text \<open>A valid record whose transaction is a dictionary with a convertible amount brings
  the run to the broadcast stage, after ten printed lines.\<close>

lemma main_valid_lines:
  assumes ex: "pending_exists E" and ld: "pending_loads E = Inr (JObj kvs)"
    and ok: "snd (verify_transaction_data (JObj kvs)) = Inr True"
    and tx: "map_of kvs ''transaction'' = Some (JObj tkvs)"
    and fa: "map_of tkvs ''from_address'' = Some fa" and ta: "map_of tkvs ''to_address'' = Some ta"
    and am: "map_of tkvs ''amount_sats'' = Some a" and cv: "satoshis_to_btc E a = Inr d"
  shows "main E = ([Print Banner_rule, Print Banner_title, Print Banner_rule, Print Details_header,
        Print (Details_from fa), Print (Details_to ta), Print (Details_amount a d),
        Print (Details_fee (case map_of tkvs ''fee_sats'' of None \<Rightarrow> JInt 0 | Some f \<Rightarrow> f)),
        Print (Details_signed (truthy (case map_of kvs ''signature'' of None \<Rightarrow> JNull | Some s \<Rightarrow> s))),
        Print Broadcasting_testnet] @ fst (main_broadcast E (JObj kvs) (JObj tkvs)),
        snd (main_broadcast E (JObj kvs) (JObj tkvs)))"
proof -
  note v = verify_True[OF ok tx]
  have ne: "kvs \<noteq> []" using tx by auto
  obtain es r where mb: "main_broadcast E (JObj kvs) (JObj tkvs) = (es, r)"
    by (cases "main_broadcast E (JObj kvs) (JObj tkvs)")
  show ?thesis
    by (simp add: main_def load_existing[OF ex ld] ne v(1) tx main_details_def fa ta am cv mb
          seq_def bind_def emit_def ret_def lift_def)
qed

lemma main_valid:
  assumes ex: "pending_exists E" and ld: "pending_loads E = Inr (JObj kvs)"
    and ok: "snd (verify_transaction_data (JObj kvs)) = Inr True"
    and tx: "map_of kvs ''transaction'' = Some (JObj tkvs)"
    and am: "map_of tkvs ''amount_sats'' = Some a" and cv: "satoshis_to_btc E a = Inr d"
  shows "calls (fst (main E)) = calls (fst (main_broadcast E (JObj kvs) (JObj tkvs)))"
proof -
  note v = verify_True[OF ok tx]
  obtain fa ta where ft: "map_of tkvs ''from_address'' = Some fa" "map_of tkvs ''to_address'' = Some ta"
    using v(3,4) by blast
  show ?thesis
    by (simp add: main_valid_lines[OF ex ld ok tx ft am cv])
qed

lemma filter_fallback_calls: "filter is_fallback_call (calls es) = filter is_fallback_call es"
proof (induction es)
  case Nil
  show ?case by simp
next
  case (Cons ev es)
  then show ?case by (cases ev) simp_all
qed

lemma filter_http_calls: "filter is_http_post (calls es) = filter is_http_post es"
proof (induction es)
  case Nil
  show ?case by simp
next
  case (Cons ev es)
  then show ?case by (cases ev) simp_all
qed

lemma key_send_exclusive:
  "(is_key_send ev \<and> is_fallback_call ev) = False"
  "(is_key_send ev \<and> is_http_post ev) = False"
  by (cases ev; simp)+

lemma fallback_calls_main_fallback:
  assumes "map_of kvs ''private_key_wif'' = Some wif"
  shows "filter is_fallback_call (calls (fst (main_fallback E (JObj kvs) (JObj tkvs))))
           = [Fallback_called (JObj tkvs) wif
                (case map_of tkvs ''fee_sats'' of None \<Rightarrow> JNull | Some f \<Rightarrow> f)]"
    and "filter is_http_post (calls (fst (main_fallback E (JObj kvs) (JObj tkvs)))) = []"
    and "\<exists>ks. calls (fst (main_fallback E (JObj kvs) (JObj tkvs)))
           = Fallback_called (JObj tkvs) wif
                (case map_of tkvs ''fee_sats'' of None \<Rightarrow> JNull | Some f \<Rightarrow> f) # ks"
  using assms
  by (simp_all add: calls_main_fallback calls_fallback key_send_exclusive split: sum.splits)

section \<open>Raw broadcast accepted\<close>

text \<open>
  C1 (amended). For a valid record whose transaction is a dictionary and whose
  \<^verbatim>\<open>amount_sats\<close> the \<^verbatim>\<open>Decimal\<close> conversion accepts, whose \<^verbatim>\<open>raw_transaction_hex\<close> is
  present and true and whose raw attempt returns a non-empty transaction id: the
  run's calls to the outside are exactly the post of that value followed by the
  deletion of the pending file, \<^verbatim>\<open>python_fallback_broadcast\<close> is never entered, and
  \<^verbatim>\<open>main\<close> returns normally.
\<close>

theorem raw_success_skips_fallback:
  assumes ex: "pending_exists E" and ld: "pending_loads E = Inr (JObj kvs)"
    and ok: "snd (verify_transaction_data (JObj kvs)) = Inr True"
    and tx: "map_of kvs ''transaction'' = Some (JObj tkvs)"
    and am: "map_of tkvs ''amount_sats'' = Some a" and cv: "satoshis_to_btc E a = Inr d"
    and raw: "map_of kvs ''raw_transaction_hex'' = Some raw" "truthy raw"
    and txid: "snd (broadcast_raw_transaction E raw) = Inr (Some txid)" "txid \<noteq> []"
  shows "calls (fst (main E)) = [Http_post raw, Unlink]
       \<and> (\<forall>ev \<in> set (fst (main E)). \<not> is_fallback_call ev)
       \<and> Unlink \<in> set (fst (main E))
       \<and> snd (main E) = Inr ()"
proof -
  note v = verify_True[OF ok tx]
  obtain fa ta where ft: "map_of tkvs ''from_address'' = Some fa" "map_of tkvs ''to_address'' = Some ta"
    using v(3,4) by blast
  note m = main_valid_lines[OF ex ld ok tx ft am cv]
  have cs: "calls (fst (main E)) = [Http_post raw, Unlink]"
    using raw txid by (simp add: m calls_main_broadcast)
  have r: "snd (main E) = Inr ()"
    using raw txid by (simp add: m snd_main_broadcast_raw_ok)
  have "\<And>ev. ev \<in> set (fst (main E)) \<Longrightarrow> \<not> is_fallback_call ev"
  proof
    fix ev assume ev: "ev \<in> set (fst (main E))" and fb: "is_fallback_call ev"
    have "\<not> is_print ev" using fb by (cases ev) simp_all
    with ev have "ev \<in> set (calls (fst (main E)))" by (simp add: in_calls)
    with cs fb show False by auto
  qed
  moreover have "Unlink \<in> set (calls (fst (main E)))" unfolding cs by simp
  then have "Unlink \<in> set (fst (main E))" by (simp add: in_calls)
  ultimately show ?thesis using cs r by blast
qed

text \<open>
  The specification's scenario: HTTP 200 with body \<^verbatim>\<open>abc123\<close>.
\<close>

theorem raw_success_skips_fallback_witness:
  "pending_loads (sample_env
       (sample_record (JInt 1000) [(''raw_transaction_hex'', JStr ''deadbeef'')])
       (Inr \<lparr>status_code = 200, resp_text = ''abc123''\<rparr>) (Inl OtherException))
     = Inr (sample_record (JInt 1000) [(''raw_transaction_hex'', JStr ''deadbeef'')])
   \<and> snd (verify_transaction_data
            (sample_record (JInt 1000) [(''raw_transaction_hex'', JStr ''deadbeef'')])) = Inr True
   \<and> snd (broadcast_raw_transaction (sample_env
           (sample_record (JInt 1000) [(''raw_transaction_hex'', JStr ''deadbeef'')])
           (Inr \<lparr>status_code = 200, resp_text = ''abc123''\<rparr>) (Inl OtherException))
         (JStr ''deadbeef'')) = Inr (Some ''abc123'')
   \<and> calls (fst (main (sample_env
           (sample_record (JInt 1000) [(''raw_transaction_hex'', JStr ''deadbeef'')])
           (Inr \<lparr>status_code = 200, resp_text = ''abc123''\<rparr>) (Inl OtherException))))
       = [Http_post (JStr ''deadbeef''), Unlink]
   \<and> snd (main (sample_env
           (sample_record (JInt 1000) [(''raw_transaction_hex'', JStr ''deadbeef'')])
           (Inr \<lparr>status_code = 200, resp_text = ''abc123''\<rparr>) (Inl OtherException))) = Inr ()"
  using raw_success_skips_fallback[of
      "sample_env (sample_record (JInt 1000) [(''raw_transaction_hex'', JStr ''deadbeef'')])
         (Inr \<lparr>status_code = 200, resp_text = ''abc123''\<rparr>) (Inl OtherException)"
      "[(''transaction'', sample_tx (JInt 1000)), (''private_key_wif'', JStr ''K''),
        (''address'', JStr ''A''), (''raw_transaction_hex'', JStr ''deadbeef'')]"
      "[(''from_address'', JStr ''A''), (''to_address'', JStr ''B''), (''amount_sats'', JInt 1000)]"
      "JInt 1000" "Finite False 1 (- 5)" "JStr ''deadbeef''" "''abc123''"]
  by (simp add: sats_1000) (simp add: run_eval)

lemma run_raw_blank:
  "main (sample_env (sample_record (JInt 1000) [(''raw_transaction_hex'', JStr ''deadbeef'')])
          (Inr \<lparr>status_code = 200, resp_text = [CHR 0x0A]\<rparr>) (Inr ''xyz789''))
   = ([Print Banner_rule, Print Banner_title, Print Banner_rule, Print Details_header,
       Print (Details_from (JStr ''A'')), Print (Details_to (JStr ''B'')),
       Print (Details_amount (JInt 1000) (Finite False 1 (- 5))), Print (Details_fee (JInt 0)),
       Print (Details_signed False), Print Broadcasting_testnet, Print Attempting_raw,
       Http_post (JStr ''deadbeef''), Print (Raw_broadcasted []), Print (Explorer []),
       Print Using_fallback,
       Fallback_called (sample_tx (JInt 1000)) (JStr ''K'') JNull, Key_load (JStr ''K''),
       Print Broadcasting_bit,
       Key_send (Signing_key 0) [(JStr ''B'', Finite False 1 (- 5), ''btc'')] Default_fee,
       Print (Broadcasted_bit ''xyz789''), Print (Explorer ''xyz789''),
       Unlink, Print Removed_pending, Print Broadcast_success], Inr ())"
  by (simp add: run_eval sats_1000)

lemma run_raw_null_amount:
  "main (sample_env (sample_record JNull [(''raw_transaction_hex'', JStr ''deadbeef'')])
          (Inr \<lparr>status_code = 200, resp_text = ''abc123''\<rparr>) (Inr ''xyz789''))
   = ([Print Banner_rule, Print Banner_title, Print Banner_rule, Print Details_header,
       Print (Details_from (JStr ''A'')), Print (Details_to (JStr ''B''))], Inl TypeError)"
  by (simp add: run_eval satoshis_to_btc_def)

text \<open>
  C1 as stated fails in two ways. When the endpoint answers 200 with a blank body the
  raw broadcaster returns the empty string, which \<^verbatim>\<open>if txid:\<close> takes for false, and the
  fallback is entered although the record is valid and the raw attempt returned a
  string. And for a valid record with a raw transaction whose \<^verbatim>\<open>amount_sats\<close> is
  \<^verbatim>\<open>null\<close>, against an endpoint that would answer 200 with an id, the run raises
  \<^verbatim>\<open>TypeError\<close> while printing the details: nothing is posted and nothing is deleted.
\<close>

theorem raw_blank_txid_counterexample:
  "snd (verify_transaction_data
          (sample_record (JInt 1000) [(''raw_transaction_hex'', JStr ''deadbeef'')])) = Inr True
   \<and> py_getitem (sample_record (JInt 1000) [(''raw_transaction_hex'', JStr ''deadbeef'')])
         ''raw_transaction_hex'' = Inr (JStr ''deadbeef'')
   \<and> snd (broadcast_raw_transaction (sample_env
           (sample_record (JInt 1000) [(''raw_transaction_hex'', JStr ''deadbeef'')])
           (Inr \<lparr>status_code = 200, resp_text = [CHR 0x0A]\<rparr>) (Inr ''xyz789''))
         (JStr ''deadbeef'')) = Inr (Some [])
   \<and> Fallback_called (sample_tx (JInt 1000)) (JStr ''K'') JNull
      \<in> set (fst (main (sample_env
           (sample_record (JInt 1000) [(''raw_transaction_hex'', JStr ''deadbeef'')])
           (Inr \<lparr>status_code = 200, resp_text = [CHR 0x0A]\<rparr>) (Inr ''xyz789''))))
   \<and> snd (verify_transaction_data
          (sample_record JNull [(''raw_transaction_hex'', JStr ''deadbeef'')])) = Inr True
   \<and> py_getitem (sample_record JNull [(''raw_transaction_hex'', JStr ''deadbeef'')])
         ''raw_transaction_hex'' = Inr (JStr ''deadbeef'')
   \<and> snd (broadcast_raw_transaction (sample_env
           (sample_record JNull [(''raw_transaction_hex'', JStr ''deadbeef'')])
           (Inr \<lparr>status_code = 200, resp_text = ''abc123''\<rparr>) (Inr ''xyz789''))
         (JStr ''deadbeef'')) = Inr (Some ''abc123'')
   \<and> calls (fst (main (sample_env
           (sample_record JNull [(''raw_transaction_hex'', JStr ''deadbeef'')])
           (Inr \<lparr>status_code = 200, resp_text = ''abc123''\<rparr>) (Inr ''xyz789'')))) = []
   \<and> snd (main (sample_env
           (sample_record JNull [(''raw_transaction_hex'', JStr ''deadbeef'')])
           (Inr \<lparr>status_code = 200, resp_text = ''abc123''\<rparr>) (Inr ''xyz789''))) = Inl TypeError"
  by (simp add: run_raw_blank run_raw_null_amount) (simp add: run_eval)

section \<open>The raw broadcaster\<close>

text \<open>
  C3 (amended). The raw broadcaster returns the response body, stripped of surrounding
  whitespace and otherwise unchecked, exactly when the response's status code is 200;
  it returns \<^verbatim>\<open>None\<close> exactly when the status code is anything else (other 2xx codes
  included) or the post raised \<^verbatim>\<open>requests.RequestException\<close>; an exception of another
  class leaves the function; it posts once.
\<close>

theorem broadcast_raw_transaction_result:
  "(snd (broadcast_raw_transaction E raw_tx_hex) = Inr (Some txid)
      \<longleftrightarrow> (\<exists>response. requests_post E raw_tx_hex = Inr response
             \<and> status_code response = 200 \<and> txid = strip (resp_text response)))
   \<and> (snd (broadcast_raw_transaction E raw_tx_hex) = Inr None
      \<longleftrightarrow> (\<exists>response. requests_post E raw_tx_hex = Inr response \<and> status_code response \<noteq> 200)
          \<or> requests_post E raw_tx_hex = Inl RequestException)
   \<and> (snd (broadcast_raw_transaction E raw_tx_hex) = Inl e
      \<longleftrightarrow> requests_post E raw_tx_hex = Inl e \<and> e \<noteq> RequestException)
   \<and> calls (fst (broadcast_raw_transaction E raw_tx_hex)) = [Http_post raw_tx_hex]"
  by (cases "requests_post E raw_tx_hex")
     (auto simp: broadcast_raw_transaction_def Let_def)

text \<open>
  A 200 response whose body carries surrounding blanks.
\<close>

theorem broadcast_raw_transaction_result_witness:
  "snd (broadcast_raw_transaction
          (sample_env JNull (Inr \<lparr>status_code = 200, resp_text = '' abc123 ''\<rparr>)
             (Inl OtherException))
          (JStr ''deadbeef'')) = Inr (Some ''abc123'')
   \<and> requests_post (sample_env JNull (Inr \<lparr>status_code = 200, resp_text = '' abc123 ''\<rparr>)
             (Inl OtherException)) (JStr ''deadbeef'')
       = Inr \<lparr>status_code = 200, resp_text = '' abc123 ''\<rparr>
   \<and> ''abc123'' = strip '' abc123 ''"
  using broadcast_raw_transaction_result[of
      "sample_env JNull (Inr \<lparr>status_code = 200, resp_text = '' abc123 ''\<rparr>) (Inl OtherException)"
      "JStr ''deadbeef''" "''abc123''" OtherException]
  by (simp add: sample_env_def strip_def py_isspace_def)

text \<open>
  C3 as stated fails at status 201, a success code of the 2xx range: the body is not
  returned.
\<close>

theorem broadcast_raw_201_counterexample:
  "(200::int) \<le> 201 \<and> (201::int) < 300
   \<and> snd (broadcast_raw_transaction
          (sample_env JNull (Inr \<lparr>status_code = 201, resp_text = ''abc123''\<rparr>)
             (Inl OtherException))
          (JStr ''deadbeef'')) = Inr None"
  by (simp add: run_eval)

section \<open>The validator\<close>




text \<open>
  C9. A record with the three top-level keys whose transaction is a dictionary with the
  three nested keys is accepted, whatever the values are.
\<close>

theorem verify_accepts_any_values:
  assumes "{''transaction'', ''private_key_wif'', ''address''} \<subseteq> fst ` set kvs"
    and "map_of kvs ''transaction'' = Some (JObj tkvs)"
    and "{''from_address'', ''to_address'', ''amount_sats''} \<subseteq> fst ` set tkvs"
  shows "verify_transaction_data (JObj kvs) = ([], Inr True)"
  using assms
  by (simp add: verify_transaction_data_def all_present_JObj bind_def lift_def ret_def)

text \<open>
  A record with a negative amount, a null sender, a numeric recipient, a list for the
  key and a boolean for the address.
\<close>

theorem verify_accepts_any_values_witness:
  "{''transaction'', ''private_key_wif'', ''address''}
     \<subseteq> fst ` set [(''transaction'', JObj [(''from_address'', JNull), (''to_address'', JInt 7),
                                         (''amount_sats'', JInt (- 1))]),
                     (''private_key_wif'', JArr []), (''address'', JBool False)]
   \<and> {''from_address'', ''to_address'', ''amount_sats''}
     \<subseteq> fst ` set [(''from_address'', JNull), (''to_address'', JInt 7), (''amount_sats'', JInt (- 1))]
   \<and> verify_transaction_data
       (JObj [(''transaction'', JObj [(''from_address'', JNull), (''to_address'', JInt 7),
                                      (''amount_sats'', JInt (- 1))]),
              (''private_key_wif'', JArr []), (''address'', JBool False)]) = ([], Inr True)"
  using verify_accepts_any_values[of
      "[(''transaction'', JObj [(''from_address'', JNull), (''to_address'', JInt 7),
                                (''amount_sats'', JInt (- 1))]),
        (''private_key_wif'', JArr []), (''address'', JBool False)]"
      "[(''from_address'', JNull), (''to_address'', JInt 7), (''amount_sats'', JInt (- 1))]"]
  by simp

section \<open>The fallback signer\<close>

text \<open>
  C8. When \<^verbatim>\<open>PrivateKeyTestnet(wif)\<close> raises, the function prints the error and returns
  \<^verbatim>\<open>None\<close>; its whole trace is the entry, the key construction and that line, so
  nothing is sent or signed.
\<close>

theorem wif_failure_returns_early:
  assumes "PrivateKeyTestnet E wif = Inl e"
  shows "python_fallback_broadcast E transaction wif fee_sats
           = ([Fallback_called transaction wif fee_sats, Key_load wif,
               Print (Could_not_load_WIF e)], Inr None)"
  using assms
  by (simp add: python_fallback_broadcast_def seq_def bind_def emit_def ret_def)

text \<open>
  An environment in which no WIF loads.
\<close>

theorem wif_failure_returns_early_witness:
  "PrivateKeyTestnet ((sample_env JNull (Inl RequestException) (Inr ''xyz789''))
       \<lparr>PrivateKeyTestnet := (\<lambda>w. Inl OtherException)\<rparr>) (JStr ''not a key'')
     = Inl OtherException
   \<and> python_fallback_broadcast ((sample_env JNull (Inl RequestException) (Inr ''xyz789''))
       \<lparr>PrivateKeyTestnet := (\<lambda>w. Inl OtherException)\<rparr>)
       (sample_tx (JInt 1000)) (JStr ''not a key'') JNull
     = ([Fallback_called (sample_tx (JInt 1000)) (JStr ''not a key'') JNull,
         Key_load (JStr ''not a key''), Print (Could_not_load_WIF OtherException)], Inr None)"
  using wif_failure_returns_early[of
      "(sample_env JNull (Inl RequestException) (Inr ''xyz789''))
         \<lparr>PrivateKeyTestnet := (\<lambda>w. Inl OtherException)\<rparr>"
      "JStr ''not a key''" OtherException "sample_tx (JInt 1000)" JNull]
  by simp

lemma key_sends_fallback:
  assumes "PrivateKeyTestnet E wif = Inr key"
    and "py_getitem transaction ''to_address'' = Inr to_address"
    and "py_getitem transaction ''amount_sats'' = Inr amount_sats"
    and "satoshis_to_btc E amount_sats = Inr btc"
  shows "filter is_key_send (fst (python_fallback_broadcast E transaction wif fee_sats))
           = [Key_send key [(to_address, btc, ''btc'')]
                (if truthy fee_sats then Absolute_fee fee_sats else Default_fee)]"
  using assms
  by (simp add: python_fallback_broadcast_def Let_def split: sum.splits)

text \<open>
  C6. Once the key is loaded and the output built, \<^verbatim>\<open>key.send\<close> is called once: with
  the fee as an absolute fee when \<^verbatim>\<open>fee_sats\<close> is a non-zero integer, with no fee argument
  when it is \<^verbatim>\<open>None\<close> or zero.
\<close>

theorem fallback_fee_selection:
  assumes "PrivateKeyTestnet E wif = Inr key"
    and "py_getitem transaction ''to_address'' = Inr to_address"
    and "py_getitem transaction ''amount_sats'' = Inr amount_sats"
    and "satoshis_to_btc E amount_sats = Inr btc"
  shows "(\<forall>n. fee_sats = JInt n \<and> n \<noteq> 0 \<longrightarrow>
            filter is_key_send (fst (python_fallback_broadcast E transaction wif fee_sats))
              = [Key_send key [(to_address, btc, ''btc'')] (Absolute_fee (JInt n))])
       \<and> (fee_sats = JNull \<or> fee_sats = JInt 0 \<longrightarrow>
            filter is_key_send (fst (python_fallback_broadcast E transaction wif fee_sats))
              = [Key_send key [(to_address, btc, ''btc'')] Default_fee])"
  using key_sends_fallback[OF assms, of fee_sats] by auto

text \<open>
  A fee of 250 satoshis, and no fee.
\<close>

theorem fallback_fee_selection_witness:
  "PrivateKeyTestnet (sample_env JNull (Inl RequestException) (Inr ''xyz789'')) (JStr ''K'')
     = Inr (Signing_key 0)
   \<and> py_getitem (sample_tx (JInt 1000)) ''to_address'' = Inr (JStr ''B'')
   \<and> py_getitem (sample_tx (JInt 1000)) ''amount_sats'' = Inr (JInt 1000)
   \<and> satoshis_to_btc (sample_env JNull (Inl RequestException) (Inr ''xyz789'')) (JInt 1000)
     = Inr (Finite False 1 (- 5))
   \<and> filter is_key_send (fst (python_fallback_broadcast
         (sample_env JNull (Inl RequestException) (Inr ''xyz789''))
         (sample_tx (JInt 1000)) (JStr ''K'') (JInt 250)))
     = [Key_send (Signing_key 0) [(JStr ''B'', Finite False 1 (- 5), ''btc'')]
          (Absolute_fee (JInt 250))]
   \<and> filter is_key_send (fst (python_fallback_broadcast
         (sample_env JNull (Inl RequestException) (Inr ''xyz789''))
         (sample_tx (JInt 1000)) (JStr ''K'') JNull))
     = [Key_send (Signing_key 0) [(JStr ''B'', Finite False 1 (- 5), ''btc'')] Default_fee]"
  using fallback_fee_selection[of
      "sample_env JNull (Inl RequestException) (Inr ''xyz789'')" "JStr ''K''" "Signing_key 0"
      "sample_tx (JInt 1000)" "JStr ''B''" "JInt 1000" "Finite False 1 (- 5)" "JInt 250"]
    fallback_fee_selection[of
      "sample_env JNull (Inl RequestException) (Inr ''xyz789'')" "JStr ''K''" "Signing_key 0"
      "sample_tx (JInt 1000)" "JStr ''B''" "JInt 1000" "Finite False 1 (- 5)" JNull]
  by (simp add: sats_1000) (simp add: sample_env_def sample_tx_def)

section \<open>Deletion of the pending record\<close>

lemma Decimal_unlink [simp]: "Decimal (E\<lparr>unlink := u\<rparr>) v = Decimal E v"
  by (induction E v rule: Decimal.induct) simp_all

lemma satoshis_unlink [simp]: "satoshis_to_btc (E\<lparr>unlink := u\<rparr>) v = satoshis_to_btc E v"
  by (simp add: satoshis_to_btc_def cong: sum.case_cong)

lemma load_unlink [simp]:
  "load_pending_transaction (E\<lparr>unlink := u\<rparr>) = load_pending_transaction E"
  by (simp add: load_pending_transaction_def)

lemma details_unlink [simp]: "main_details (E\<lparr>unlink := u\<rparr>) tx sig = main_details E tx sig"
  by (simp add: main_details_def cong: sum.case_cong)

lemma raw_unlink [simp]:
  "broadcast_raw_transaction (E\<lparr>unlink := u\<rparr>) h = broadcast_raw_transaction E h"
  by (simp add: broadcast_raw_transaction_def)

lemma fallback_unlink [simp]:
  "python_fallback_broadcast (E\<lparr>unlink := u\<rparr>) t w f = python_fallback_broadcast E t w f"
  by (simp add: python_fallback_broadcast_def Let_def cong: sum.case_cong if_cong)

lemma snd_main_fallback:
  "snd (main_fallback E td tx) =
     (case py_get tx ''fee_sats'' JNull of Inl x \<Rightarrow> Inl x
      | Inr fee \<Rightarrow>
         (case py_get td ''private_key_wif'' JNull of Inl x \<Rightarrow> Inl x
          | Inr wif \<Rightarrow>
              (case snd (python_fallback_broadcast E tx wif fee) of Inl x \<Rightarrow> Inl x
               | Inr txid \<Rightarrow> Inr ())))"
  by (simp add: main_fallback_def snd_bind snd_seq split: sum.splits)

lemma snd_main_broadcast:
  "snd (main_broadcast E td tx) =
     (case py_get td ''raw_transaction_hex'' JNull of Inl x \<Rightarrow> Inl x
      | Inr raw \<Rightarrow>
         if truthy raw then
           (case py_getitem td ''raw_transaction_hex'' of Inl x \<Rightarrow> Inl x
            | Inr h \<Rightarrow>
                (case snd (broadcast_raw_transaction E h) of Inl x \<Rightarrow> Inl x
                 | Inr txid \<Rightarrow> if truthy_txid txid then Inr ()
                               else snd (main_fallback E td tx)))
         else snd (main_fallback E td tx))"
  by (simp add: main_broadcast_def snd_bind split: sum.splits)

lemma main_fallback_unlink:
  "calls (fst (main_fallback (E\<lparr>unlink := u\<rparr>) td tx)) = calls (fst (main_fallback E td tx))"
  "snd (main_fallback (E\<lparr>unlink := u\<rparr>) td tx) = snd (main_fallback E td tx)"
  by (simp_all add: calls_main_fallback snd_main_fallback cong: sum.case_cong)

lemma main_broadcast_unlink:
  "calls (fst (main_broadcast (E\<lparr>unlink := u\<rparr>) td tx)) = calls (fst (main_broadcast E td tx))"
  "snd (main_broadcast (E\<lparr>unlink := u\<rparr>) td tx) = snd (main_broadcast E td tx)"
  by (simp_all add: calls_main_broadcast snd_main_broadcast main_fallback_unlink
        cong: sum.case_cong if_cong)

lemma main_unlink:
  "calls (fst (main (E\<lparr>unlink := u\<rparr>))) = calls (fst (main E))"
  "snd (main (E\<lparr>unlink := u\<rparr>)) = snd (main E)"
  by (auto simp: main_def fst_bind snd_bind fst_seq snd_seq main_broadcast_unlink
        split: sum.splits)

lemma main_fallback_cases:
  obtains (stopped) "calls (fst (main_fallback E td tx)) = []"
  | (failed) w f where
      "calls (fst (main_fallback E td tx))
         = Fallback_called tx w f # Key_load w
             # filter is_key_send (fst (python_fallback_broadcast E tx w f))"
      "\<And>t. snd (python_fallback_broadcast E tx w f) = Inr (Some t) \<Longrightarrow> t = []"
  | (succeeded) w f t where
      "calls (fst (main_fallback E td tx))
         = Fallback_called tx w f # Key_load w
             # filter is_key_send (fst (python_fallback_broadcast E tx w f)) @ [Unlink]"
      "snd (python_fallback_broadcast E tx w f) = Inr (Some t)" "t \<noteq> []"
proof (cases "py_get tx ''fee_sats'' JNull")
  case (Inl x)
  then show ?thesis using stopped by (simp add: calls_main_fallback)
next
  case fee: (Inr f)
  show ?thesis
  proof (cases "py_get td ''private_key_wif'' JNull")
    case (Inl x)
    then show ?thesis using stopped fee by (simp add: calls_main_fallback)
  next
    case wif: (Inr w)
    show ?thesis
    proof (cases "snd (python_fallback_broadcast E tx w f)")
      case (Inl x)
      then show ?thesis
        using failed[of w f] fee wif by (simp add: calls_main_fallback calls_fallback)
    next
      case (Inr r)
      show ?thesis
      proof (cases "truthy_txid r")
        case True
        then obtain t where "r = Some t" "t \<noteq> []" by (auto simp: truthy_txid_iff)
        then show ?thesis
          using succeeded[of w f t] fee wif Inr by (simp add: calls_main_fallback calls_fallback)
      next
        case False
        then have "\<And>t. r = Some t \<Longrightarrow> t = []" by (auto simp: truthy_txid_iff)
        then show ?thesis
          using failed[of w f] fee wif Inr False
          by (simp add: calls_main_fallback calls_fallback)
      qed
    qed
  qed
qed

lemma main_broadcast_cases:
  obtains (stopped) "calls (fst (main_broadcast E td tx)) = []"
  | (raw_raised) h x where
      "calls (fst (main_broadcast E td tx)) = [Http_post h]"
      "snd (broadcast_raw_transaction E h) = Inl x"
  | (raw_accepted) h t where
      "calls (fst (main_broadcast E td tx)) = [Http_post h, Unlink]"
      "snd (broadcast_raw_transaction E h) = Inr (Some t)" "t \<noteq> []"
  | (raw_failed) h where
      "calls (fst (main_broadcast E td tx)) = Http_post h # calls (fst (main_fallback E td tx))"
      "\<And>t. snd (broadcast_raw_transaction E h) = Inr (Some t) \<Longrightarrow> t = []"
  | (raw_skipped)
      "calls (fst (main_broadcast E td tx)) = calls (fst (main_fallback E td tx))"
proof (cases "py_get td ''raw_transaction_hex'' JNull")
  case (Inl x)
  then show ?thesis using stopped by (simp add: calls_main_broadcast)
next
  case raw: (Inr raw)
  show ?thesis
  proof (cases "truthy raw")
    case False
    then show ?thesis using raw_skipped raw by (simp add: calls_main_broadcast)
  next
    case True
    show ?thesis
    proof (cases "py_getitem td ''raw_transaction_hex''")
      case (Inl x)
      then show ?thesis using stopped raw True by (simp add: calls_main_broadcast)
    next
      case hex: (Inr h)
      show ?thesis
      proof (cases "snd (broadcast_raw_transaction E h)")
        case (Inl x)
        then show ?thesis
          using raw_raised[of h x] raw True hex by (simp add: calls_main_broadcast)
      next
        case (Inr r)
        show ?thesis
        proof (cases "truthy_txid r")
          case t: True
          then obtain t where "r = Some t" "t \<noteq> []" by (auto simp: truthy_txid_iff)
          then show ?thesis
            using raw_accepted[of h t] raw True hex Inr by (simp add: calls_main_broadcast)
        next
          case f: False
          then have "\<And>t. r = Some t \<Longrightarrow> t = []" by (auto simp: truthy_txid_iff)
          then show ?thesis
            using raw_failed[of h] raw True hex Inr f by (simp add: calls_main_broadcast)
        qed
      qed
    qed
  qed
qed

text \<open>The calls of a whole run have one of five shapes.\<close>

lemma main_calls_shape:
  obtains (silent) "calls (fst (main E)) = []"
  | (raw_only) h where
      "calls (fst (main E)) = [Http_post h]"
      "\<And>t. snd (broadcast_raw_transaction E h) = Inr (Some t) \<Longrightarrow> t = []"
  | (raw_accepted) h t where
      "calls (fst (main E)) = [Http_post h, Unlink]"
      "snd (broadcast_raw_transaction E h) = Inr (Some t)" "t \<noteq> []"
  | (fallback_failed) pre tx w f where
      "calls (fst (main E))
         = pre @ Fallback_called tx w f # Key_load w
             # filter is_key_send (fst (python_fallback_broadcast E tx w f))"
      "pre = [] \<or> (\<exists>h. pre = [Http_post h])"
      "\<And>t. snd (python_fallback_broadcast E tx w f) = Inr (Some t) \<Longrightarrow> t = []"
  | (fallback_succeeded) pre tx w f t where
      "calls (fst (main E))
         = pre @ Fallback_called tx w f # Key_load w
             # filter is_key_send (fst (python_fallback_broadcast E tx w f)) @ [Unlink]"
      "pre = [] \<or> (\<exists>h. pre = [Http_post h])"
      "snd (python_fallback_broadcast E tx w f) = Inr (Some t)" "t \<noteq> []"
proof -
  from main_reach[of E] show ?thesis
  proof (elim disjE exE conjE)
    assume "calls (fst (main E)) = []"
    then show ?thesis by (rule silent)
  next
    fix td tx
    assume eq: "calls (fst (main E)) = calls (fst (main_broadcast E td tx))"
    show ?thesis
    proof (cases E td tx rule: main_broadcast_cases)
      case stopped
      then show ?thesis using silent eq by simp
    next
      case (raw_raised h x)
      then show ?thesis using raw_only[of h] eq by simp
    next
      case (raw_accepted h t)
      then show ?thesis using that(3)[of h t] eq by simp
    next
      case (raw_failed h)
      show ?thesis
      proof (cases E td tx rule: main_fallback_cases)
        case stopped
        then show ?thesis using raw_only[of h] raw_failed eq by simp
      next
        case (failed w f)
        then show ?thesis using fallback_failed[of "[Http_post h]" tx w f] raw_failed eq by simp
      next
        case (succeeded w f t)
        then show ?thesis
          using fallback_succeeded[of "[Http_post h]" tx w f t] raw_failed eq by simp
      qed
    next
      case raw_skipped
      show ?thesis
      proof (cases E td tx rule: main_fallback_cases)
        case stopped
        then show ?thesis using silent raw_skipped eq by simp
      next
        case (failed w f)
        then show ?thesis using fallback_failed[of "[]" tx w f] raw_skipped eq by simp
      next
        case (succeeded w f t)
        then show ?thesis using fallback_succeeded[of "[]" tx w f t] raw_skipped eq by simp
      qed
    qed
  qed
qed

text \<open>
  C5. If a run deletes the pending file, then either its raw post returned a non-empty
  transaction id or its fallback call did, and the deletion is the run's last call and
  its only deletion. If the fallback was entered and did not return a non-empty id, the
  run deletes nothing. \<^verbatim>\<open>cleanup_pending\<close> never raises, and whether \<^verbatim>\<open>unlink\<close> fails
  changes neither the result of the run nor its calls.
\<close>

theorem delete_only_after_success:
  "(Unlink \<in> set (fst (main E)) \<longrightarrow>
      ((\<exists>hex t. Http_post hex \<in> set (fst (main E))
           \<and> snd (broadcast_raw_transaction E hex) = Inr (Some t) \<and> t \<noteq> [])
       \<or> (\<exists>tx w f t. Fallback_called tx w f \<in> set (fst (main E))
           \<and> snd (python_fallback_broadcast E tx w f) = Inr (Some t) \<and> t \<noteq> []))
      \<and> (\<exists>pre. calls (fst (main E)) = pre @ [Unlink] \<and> Unlink \<notin> set pre))
   \<and> (\<forall>tx w f. Fallback_called tx w f \<in> set (fst (main E))
         \<and> (\<forall>t. snd (python_fallback_broadcast E tx w f) = Inr (Some t) \<longrightarrow> t = [])
         \<longrightarrow> Unlink \<notin> set (fst (main E)))
   \<and> snd (cleanup_pending E) = Inr ()
   \<and> snd (main (E\<lparr>unlink := u\<rparr>)) = snd (main E)
   \<and> calls (fst (main (E\<lparr>unlink := u\<rparr>))) = calls (fst (main E))"
proof -
  have mem: "\<And>ev. \<not> is_print ev \<Longrightarrow> ev \<in> set (fst (main E)) \<longleftrightarrow> ev \<in> set (calls (fst (main E)))"
    by (simp add: in_calls)
  have a: "Unlink \<in> set (fst (main E)) \<longrightarrow>
      ((\<exists>hex t. Http_post hex \<in> set (fst (main E))
           \<and> snd (broadcast_raw_transaction E hex) = Inr (Some t) \<and> t \<noteq> [])
       \<or> (\<exists>tx w f t. Fallback_called tx w f \<in> set (fst (main E))
           \<and> snd (python_fallback_broadcast E tx w f) = Inr (Some t) \<and> t \<noteq> []))
      \<and> (\<exists>pre. calls (fst (main E)) = pre @ [Unlink] \<and> Unlink \<notin> set pre)"
  proof (cases E rule: main_calls_shape)
    case silent
    then show ?thesis by (simp add: mem)
  next
    case (raw_only h)
    then show ?thesis by (simp add: mem)
  next
    case (raw_accepted h t)
    then show ?thesis by (auto simp: mem)
  next
    case (fallback_failed pre tx w f)
    then show ?thesis by (auto simp: mem filter_key_send_not)
  next
    case (fallback_succeeded pre tx w f t)
    have "calls (fst (main E)) = (pre @ Fallback_called tx w f # Key_load w
             # filter is_key_send (fst (python_fallback_broadcast E tx w f))) @ [Unlink]"
      using fallback_succeeded(1) by simp
    moreover have "Unlink \<notin> set (pre @ Fallback_called tx w f # Key_load w
             # filter is_key_send (fst (python_fallback_broadcast E tx w f)))"
      using fallback_succeeded(2) by (auto simp: filter_key_send_not)
    moreover have "Fallback_called tx w f \<in> set (fst (main E))"
      using fallback_succeeded(1) by (simp add: mem)
    ultimately show ?thesis using fallback_succeeded(3,4) by blast
  qed
  have b: "Unlink \<notin> set (fst (main E))"
    if "Fallback_called tx w f \<in> set (fst (main E))"
      and "\<forall>t. snd (python_fallback_broadcast E tx w f) = Inr (Some t) \<longrightarrow> t = []"
    for tx w f
  proof (cases E rule: main_calls_shape)
    case silent
    then show ?thesis by (simp add: mem)
  next
    case (raw_only h)
    then show ?thesis by (simp add: mem)
  next
    case (raw_accepted h t)
    then show ?thesis using that by (simp add: mem)
  next
    case (fallback_failed pre tx' w' f')
    then show ?thesis by (auto simp: mem filter_key_send_not)
  next
    case (fallback_succeeded pre tx' w' f' t)
    then have "tx' = tx \<and> w' = w \<and> f' = f"
      using that(1) by (auto simp: mem filter_key_send_not)
    then show ?thesis using fallback_succeeded(3,4) that(2) by auto
  qed
  have c: "snd (cleanup_pending E) = Inr ()" by simp
  show ?thesis using a b c main_unlink[of u E] by blast
qed

lemma run_raw_rejected:
  "main (sample_env (sample_record (JInt 1000) [(''raw_transaction_hex'', JStr ''deadbeef'')])
          (Inr \<lparr>status_code = 500, resp_text = ''bad''\<rparr>) (Inr ''xyz789''))
   = ([Print Banner_rule, Print Banner_title, Print Banner_rule, Print Details_header,
       Print (Details_from (JStr ''A'')), Print (Details_to (JStr ''B'')),
       Print (Details_amount (JInt 1000) (Finite False 1 (- 5))), Print (Details_fee (JInt 0)),
       Print (Details_signed False), Print Broadcasting_testnet, Print Attempting_raw,
       Http_post (JStr ''deadbeef''), Print (Broadcast_failed 500 ''bad''),
       Print Using_fallback,
       Fallback_called (sample_tx (JInt 1000)) (JStr ''K'') JNull, Key_load (JStr ''K''),
       Print Broadcasting_bit,
       Key_send (Signing_key 0) [(JStr ''B'', Finite False 1 (- 5), ''btc'')] Default_fee,
       Print (Broadcasted_bit ''xyz789''), Print (Explorer ''xyz789''),
       Unlink, Print Removed_pending, Print Broadcast_success], Inr ())"
  by (simp add: run_eval sats_1000)

lemma run_both_failed:
  "main (sample_env (sample_record (JInt 1000) [(''raw_transaction_hex'', JStr ''deadbeef'')])
          (Inr \<lparr>status_code = 500, resp_text = ''bad''\<rparr>) (Inl OtherException))
   = ([Print Banner_rule, Print Banner_title, Print Banner_rule, Print Details_header,
       Print (Details_from (JStr ''A'')), Print (Details_to (JStr ''B'')),
       Print (Details_amount (JInt 1000) (Finite False 1 (- 5))), Print (Details_fee (JInt 0)),
       Print (Details_signed False), Print Broadcasting_testnet, Print Attempting_raw,
       Http_post (JStr ''deadbeef''), Print (Broadcast_failed 500 ''bad''),
       Print Using_fallback,
       Fallback_called (sample_tx (JInt 1000)) (JStr ''K'') JNull, Key_load (JStr ''K''),
       Print Broadcasting_bit,
       Key_send (Signing_key 0) [(JStr ''B'', Finite False 1 (- 5), ''btc'')] Default_fee,
       Print (Signing_failed OtherException), Print Broadcast_failure], Inr ())"
  by (simp add: run_eval sats_1000)

lemma fallback_result_failed:
  "snd (python_fallback_broadcast
          (sample_env (sample_record (JInt 1000) [(''raw_transaction_hex'', JStr ''deadbeef'')])
             (Inr \<lparr>status_code = 500, resp_text = ''bad''\<rparr>) (Inl OtherException))
          (sample_tx (JInt 1000)) (JStr ''K'') JNull) = Inr None"
  by (simp add: run_eval sats_1000)

lemma fallback_result_sent:
  "snd (python_fallback_broadcast
          (sample_env (sample_record (JInt 1000) [(''raw_transaction_hex'', JStr ''deadbeef'')])
             (Inr \<lparr>status_code = 500, resp_text = ''bad''\<rparr>) (Inr ''xyz789''))
          (sample_tx (JInt 1000)) (JStr ''K'') JNull) = Inr (Some ''xyz789'')"
  by (simp add: run_eval sats_1000)

text \<open>
  The endpoint answers 500 and signing fails: nothing is deleted. The endpoint answers
  500 and signing succeeds: the file is deleted after the fallback.
\<close>

theorem delete_only_after_success_witness:
  "Fallback_called (sample_tx (JInt 1000)) (JStr ''K'') JNull
     \<in> set (fst (main (sample_env
           (sample_record (JInt 1000) [(''raw_transaction_hex'', JStr ''deadbeef'')])
           (Inr \<lparr>status_code = 500, resp_text = ''bad''\<rparr>) (Inl OtherException))))
   \<and> snd (python_fallback_broadcast
          (sample_env (sample_record (JInt 1000) [(''raw_transaction_hex'', JStr ''deadbeef'')])
             (Inr \<lparr>status_code = 500, resp_text = ''bad''\<rparr>) (Inl OtherException))
          (sample_tx (JInt 1000)) (JStr ''K'') JNull) = Inr None
   \<and> Unlink \<notin> set (fst (main (sample_env
           (sample_record (JInt 1000) [(''raw_transaction_hex'', JStr ''deadbeef'')])
           (Inr \<lparr>status_code = 500, resp_text = ''bad''\<rparr>) (Inl OtherException))))
   \<and> Unlink \<in> set (fst (main (sample_env
           (sample_record (JInt 1000) [(''raw_transaction_hex'', JStr ''deadbeef'')])
           (Inr \<lparr>status_code = 500, resp_text = ''bad''\<rparr>) (Inr ''xyz789''))))
   \<and> Fallback_called (sample_tx (JInt 1000)) (JStr ''K'') JNull
     \<in> set (fst (main (sample_env
           (sample_record (JInt 1000) [(''raw_transaction_hex'', JStr ''deadbeef'')])
           (Inr \<lparr>status_code = 500, resp_text = ''bad''\<rparr>) (Inr ''xyz789''))))
   \<and> snd (python_fallback_broadcast
          (sample_env (sample_record (JInt 1000) [(''raw_transaction_hex'', JStr ''deadbeef'')])
             (Inr \<lparr>status_code = 500, resp_text = ''bad''\<rparr>) (Inr ''xyz789''))
          (sample_tx (JInt 1000)) (JStr ''K'') JNull) = Inr (Some ''xyz789'')"
  using delete_only_after_success[of
      "sample_env (sample_record (JInt 1000) [(''raw_transaction_hex'', JStr ''deadbeef'')])
         (Inr \<lparr>status_code = 500, resp_text = ''bad''\<rparr>) (Inl OtherException)" None]
    delete_only_after_success[of
      "sample_env (sample_record (JInt 1000) [(''raw_transaction_hex'', JStr ''deadbeef'')])
         (Inr \<lparr>status_code = 500, resp_text = ''bad''\<rparr>) (Inr ''xyz789'')" None]
  by (simp add: run_both_failed run_raw_rejected fallback_result_failed fallback_result_sent)

section \<open>Falling back\<close>

text \<open>
  C2 (amended). For a valid record whose transaction is a dictionary and whose
  \<^verbatim>\<open>amount_sats\<close> the \<^verbatim>\<open>Decimal\<close> conversion accepts: if \<^verbatim>\<open>raw_transaction_hex\<close> is absent
  or false, or the raw attempt returns \<^verbatim>\<open>None\<close> or an empty id, the run enters
  \<^verbatim>\<open>python_fallback_broadcast\<close> exactly once, with the transaction, the stored
  \<^verbatim>\<open>private_key_wif\<close> and \<^verbatim>\<open>fee_sats\<close> (\<^verbatim>\<open>None\<close> when absent).
\<close>

theorem fallback_invoked_once:
  assumes ex: "pending_exists E" and ld: "pending_loads E = Inr (JObj kvs)"
    and ok: "snd (verify_transaction_data (JObj kvs)) = Inr True"
    and tx: "map_of kvs ''transaction'' = Some (JObj tkvs)"
    and am: "map_of tkvs ''amount_sats'' = Some a" and cv: "satoshis_to_btc E a = Inr d"
    and raw: "map_of kvs ''raw_transaction_hex'' = None
        \<or> (\<exists>raw. map_of kvs ''raw_transaction_hex'' = Some raw
              \<and> (\<not> truthy raw
                  \<or> (\<exists>r. snd (broadcast_raw_transaction E raw) = Inr r \<and> \<not> truthy_txid r)))"
  shows "\<exists>wif. map_of kvs ''private_key_wif'' = Some wif
           \<and> filter is_fallback_call (fst (main E))
             = [Fallback_called (JObj tkvs) wif
                  (case map_of tkvs ''fee_sats'' of None \<Rightarrow> JNull | Some f \<Rightarrow> f)]"
proof -
  obtain wif where wif: "map_of kvs ''private_key_wif'' = Some wif"
    using verify_True(2)[OF ok tx] by blast
  note fb = fallback_calls_main_fallback[OF wif, of E tkvs]
  have "filter is_fallback_call (calls (fst (main_broadcast E (JObj kvs) (JObj tkvs))))
        = [Fallback_called (JObj tkvs) wif
             (case map_of tkvs ''fee_sats'' of None \<Rightarrow> JNull | Some f \<Rightarrow> f)]"
    using raw
  proof (elim disjE exE conjE)
    assume "map_of kvs ''raw_transaction_hex'' = None"
    then show ?thesis by (simp add: calls_main_broadcast fb(1))
  next
    fix raw assume "map_of kvs ''raw_transaction_hex'' = Some raw" "\<not> truthy raw"
    then show ?thesis by (simp add: calls_main_broadcast fb(1))
  next
    fix raw r
    assume "map_of kvs ''raw_transaction_hex'' = Some raw"
      "snd (broadcast_raw_transaction E raw) = Inr r" "\<not> truthy_txid r"
    then show ?thesis by (simp add: calls_main_broadcast fb(1))
  qed
  then have "filter is_fallback_call (fst (main E))
        = [Fallback_called (JObj tkvs) wif
             (case map_of tkvs ''fee_sats'' of None \<Rightarrow> JNull | Some f \<Rightarrow> f)]"
    using main_valid[OF ex ld ok tx am cv] filter_fallback_calls[of "fst (main E)"] by simp
  with wif show ?thesis by blast
qed

text \<open>
  The specification's scenario: the endpoint answers 500, the fallback is entered once
  with key \<^verbatim>\<open>K\<close>.
\<close>

theorem fallback_invoked_once_witness:
  "pending_exists (sample_env
       (sample_record (JInt 1000) [(''raw_transaction_hex'', JStr ''deadbeef'')])
       (Inr \<lparr>status_code = 500, resp_text = ''bad''\<rparr>) (Inr ''xyz789''))
   \<and> snd (verify_transaction_data
            (sample_record (JInt 1000) [(''raw_transaction_hex'', JStr ''deadbeef'')])) = Inr True
   \<and> snd (broadcast_raw_transaction (sample_env
       (sample_record (JInt 1000) [(''raw_transaction_hex'', JStr ''deadbeef'')])
       (Inr \<lparr>status_code = 500, resp_text = ''bad''\<rparr>) (Inr ''xyz789'')) (JStr ''deadbeef''))
     = Inr None
   \<and> filter is_fallback_call (fst (main (sample_env
       (sample_record (JInt 1000) [(''raw_transaction_hex'', JStr ''deadbeef'')])
       (Inr \<lparr>status_code = 500, resp_text = ''bad''\<rparr>) (Inr ''xyz789''))))
     = [Fallback_called (sample_tx (JInt 1000)) (JStr ''K'') JNull]"
  using fallback_invoked_once[of
      "sample_env (sample_record (JInt 1000) [(''raw_transaction_hex'', JStr ''deadbeef'')])
         (Inr \<lparr>status_code = 500, resp_text = ''bad''\<rparr>) (Inr ''xyz789'')"
      "[(''transaction'', sample_tx (JInt 1000)), (''private_key_wif'', JStr ''K''),
        (''address'', JStr ''A''), (''raw_transaction_hex'', JStr ''deadbeef'')]"
      "[(''from_address'', JStr ''A''), (''to_address'', JStr ''B''), (''amount_sats'', JInt 1000)]"
      "JInt 1000" "Finite False 1 (- 5)"]
  by (simp add: run_raw_rejected sats_1000) (simp add: run_eval)

lemma run_null_amount:
  "main (sample_env (sample_record JNull []) (Inl RequestException) (Inr ''xyz789''))
   = ([Print Banner_rule, Print Banner_title, Print Banner_rule, Print Details_header,
       Print (Details_from (JStr ''A'')), Print (Details_to (JStr ''B''))], Inl TypeError)"
  by (simp add: run_eval satoshis_to_btc_def)

text \<open>
  C2 as stated fails for a record that passes the validator, has no
  \<^verbatim>\<open>raw_transaction_hex\<close> and carries \<^verbatim>\<open>null\<close> as \<^verbatim>\<open>amount_sats\<close>: printing the details
  raises \<^verbatim>\<open>TypeError\<close> in \<^verbatim>\<open>Decimal(None)\<close> and the fallback is never entered.
\<close>

theorem null_amount_no_fallback_counterexample:
  "verify_transaction_data (sample_record JNull []) = ([], Inr True)
   \<and> py_contains (sample_record JNull []) ''raw_transaction_hex'' = Inr False
   \<and> filter is_fallback_call
        (fst (main (sample_env (sample_record JNull []) (Inl RequestException) (Inr ''xyz789''))))
      = []
   \<and> snd (main (sample_env (sample_record JNull []) (Inl RequestException) (Inr ''xyz789'')))
      = Inl TypeError"
  by (simp add: run_null_amount) (simp add: run_eval)

section \<open>A false raw transaction\<close>

lemma Decimal_loads [simp]: "Decimal (E\<lparr>pending_loads := p\<rparr>) v = Decimal E v"
  by (induction E v rule: Decimal.induct) simp_all

lemma satoshis_loads [simp]: "satoshis_to_btc (E\<lparr>pending_loads := p\<rparr>) v = satoshis_to_btc E v"
  by (simp add: satoshis_to_btc_def cong: sum.case_cong)

lemma fallback_loads [simp]:
  "python_fallback_broadcast (E\<lparr>pending_loads := p\<rparr>) t w f = python_fallback_broadcast E t w f"
  by (simp add: python_fallback_broadcast_def Let_def cong: sum.case_cong if_cong)

lemma cleanup_loads [simp]: "cleanup_pending (E\<lparr>pending_loads := p\<rparr>) = cleanup_pending E"
  by (simp add: cleanup_pending_def)

lemma main_fallback_loads:
  assumes "map_of kvs' ''private_key_wif'' = map_of kvs ''private_key_wif''"
  shows "main_fallback (E\<lparr>pending_loads := p\<rparr>) (JObj kvs') tx = main_fallback E (JObj kvs) tx"
  using assms by (simp add: main_fallback_def cong: sum.case_cong if_cong)

lemma main_broadcast_falsy:
  assumes "map_of kvs ''raw_transaction_hex'' = None
         \<or> (\<exists>raw. map_of kvs ''raw_transaction_hex'' = Some raw \<and> \<not> truthy raw)"
  shows "main_broadcast E (JObj kvs) tx = main_fallback E (JObj kvs) tx"
  using assms by (auto simp: main_broadcast_def bind_def lift_def)

lemma map_of_without:
  "k \<noteq> k' \<Longrightarrow> map_of (filter (\<lambda>kv. fst kv \<noteq> k') kvs) k = map_of kvs k"
  by (induction kvs) auto

lemma map_of_without_self: "map_of (filter (\<lambda>kv. fst kv \<noteq> k) kvs) k = None"
  by (induction kvs) auto

lemma keys_without:
  "k \<noteq> k' \<Longrightarrow> k \<in> set (map fst (filter (\<lambda>kv. fst kv \<noteq> k') kvs)) \<longleftrightarrow> k \<in> set (map fst kvs)"
  by (induction kvs) auto

lemma verify_without:
  "verify_transaction_data (JObj (filter (\<lambda>kv. fst kv \<noteq> ''raw_transaction_hex'') kvs))
     = verify_transaction_data (JObj kvs)"
proof -
  have "find (\<lambda>r. r \<notin> set (map fst (filter (\<lambda>kv. fst kv \<noteq> ''raw_transaction_hex'') kvs)))
          [''transaction'', ''private_key_wif'', ''address'']
      = find (\<lambda>r. r \<notin> set (map fst kvs)) [''transaction'', ''private_key_wif'', ''address'']"
    by (rule find_cong) (auto simp: keys_without simp del: set_map)
  moreover have "map_of (filter (\<lambda>kv. fst kv \<noteq> ''raw_transaction_hex'') kvs) ''transaction''
      = map_of kvs ''transaction''"
    by (simp add: map_of_without)
  ultimately show ?thesis by (simp only: verify_JObj)
qed

text \<open>
  C10 (amended). For a valid record whose transaction is a dictionary and whose
  \<^verbatim>\<open>amount_sats\<close> the \<^verbatim>\<open>Decimal\<close> conversion accepts, and whose \<^verbatim>\<open>raw_transaction_hex\<close>
  is the empty string or \<^verbatim>\<open>null\<close>: the run posts nothing, its first call is the entry
  into the fallback, and it is the run of the same record without the key.
\<close>

theorem falsy_raw_hex_as_absent:
  assumes ex: "pending_exists E" and ld: "pending_loads E = Inr (JObj kvs)"
    and ok: "snd (verify_transaction_data (JObj kvs)) = Inr True"
    and tx: "map_of kvs ''transaction'' = Some (JObj tkvs)"
    and am: "map_of tkvs ''amount_sats'' = Some a" and cv: "satoshis_to_btc E a = Inr d"
    and raw: "map_of kvs ''raw_transaction_hex'' = Some raw" and falsy: "raw = JStr [] \<or> raw = JNull"
  shows "filter is_http_post (fst (main E)) = []
       \<and> (\<exists>wif ks. map_of kvs ''private_key_wif'' = Some wif
             \<and> calls (fst (main E))
               = Fallback_called (JObj tkvs) wif
                   (case map_of tkvs ''fee_sats'' of None \<Rightarrow> JNull | Some f \<Rightarrow> f) # ks)
       \<and> main (E\<lparr>pending_loads :=
                   Inr (JObj (filter (\<lambda>kv. fst kv \<noteq> ''raw_transaction_hex'') kvs))\<rparr>)
         = main E"
proof -
  let ?kvs' = "filter (\<lambda>kv. fst kv \<noteq> ''raw_transaction_hex'') kvs"
  let ?E' = "E\<lparr>pending_loads := Inr (JObj ?kvs')\<rparr>"
  have nt: "\<not> truthy raw" using falsy by auto
  note v = verify_True[OF ok tx]
  obtain wif where wif: "map_of kvs ''private_key_wif'' = Some wif" using v(2) by blast
  obtain fa ta where ft: "map_of tkvs ''from_address'' = Some fa" "map_of tkvs ''to_address'' = Some ta"
    using v(3,4) by blast
  note fb = fallback_calls_main_fallback[OF wif, of E tkvs]
  have mb: "main_broadcast E (JObj kvs) (JObj tkvs) = main_fallback E (JObj kvs) (JObj tkvs)"
    using raw nt by (intro main_broadcast_falsy) blast
  have cs: "calls (fst (main E)) = calls (fst (main_fallback E (JObj kvs) (JObj tkvs)))"
    using main_valid[OF ex ld ok tx am cv] mb by simp
  have p1: "filter is_http_post (fst (main E)) = []"
    using filter_http_calls[of "fst (main E)"] cs fb(2) by simp
  have p2: "\<exists>wif ks. map_of kvs ''private_key_wif'' = Some wif
             \<and> calls (fst (main E))
               = Fallback_called (JObj tkvs) wif
                   (case map_of tkvs ''fee_sats'' of None \<Rightarrow> JNull | Some f \<Rightarrow> f) # ks"
    using wif fb(3) cs by auto
  have mb': "main_broadcast ?E' (JObj ?kvs') (JObj tkvs) = main_fallback E (JObj kvs) (JObj tkvs)"
    using main_broadcast_falsy[of ?kvs' ?E' "JObj tkvs"]
    by (simp add: map_of_without_self main_fallback_loads map_of_without)
  have m: "main E = ([Print Banner_rule, Print Banner_title, Print Banner_rule, Print Details_header,
        Print (Details_from fa), Print (Details_to ta), Print (Details_amount a d),
        Print (Details_fee (case map_of tkvs ''fee_sats'' of None \<Rightarrow> JInt 0 | Some f \<Rightarrow> f)),
        Print (Details_signed (truthy (case map_of kvs ''signature'' of None \<Rightarrow> JNull | Some s \<Rightarrow> s))),
        Print Broadcasting_testnet] @ fst (main_fallback E (JObj kvs) (JObj tkvs)),
        snd (main_fallback E (JObj kvs) (JObj tkvs)))"
    using main_valid_lines[OF ex ld ok tx ft am cv] mb by simp
  have m': "main ?E' = ([Print Banner_rule, Print Banner_title, Print Banner_rule, Print Details_header,
        Print (Details_from fa), Print (Details_to ta), Print (Details_amount a d),
        Print (Details_fee (case map_of tkvs ''fee_sats'' of None \<Rightarrow> JInt 0 | Some f \<Rightarrow> f)),
        Print (Details_signed (truthy (case map_of ?kvs' ''signature'' of None \<Rightarrow> JNull | Some s \<Rightarrow> s))),
        Print Broadcasting_testnet] @ fst (main_fallback E (JObj kvs) (JObj tkvs)),
        snd (main_fallback E (JObj kvs) (JObj tkvs)))"
    using main_valid_lines[of ?E' ?kvs' tkvs fa ta a d] ex ok tx ft am cv mb'
    by (simp add: verify_without map_of_without)
  have p3: "main ?E' = main E" unfolding m m' by (simp add: map_of_without)
  show ?thesis using p1 p2 p3 by blast
qed

lemma run_blank_hex:
  "main (sample_env (sample_record (JInt 1000) [(''raw_transaction_hex'', JStr [])])
          (Inr \<lparr>status_code = 200, resp_text = ''abc123''\<rparr>) (Inr ''xyz789''))
   = ([Print Banner_rule, Print Banner_title, Print Banner_rule, Print Details_header,
       Print (Details_from (JStr ''A'')), Print (Details_to (JStr ''B'')),
       Print (Details_amount (JInt 1000) (Finite False 1 (- 5))), Print (Details_fee (JInt 0)),
       Print (Details_signed False), Print Broadcasting_testnet,
       Print Using_fallback,
       Fallback_called (sample_tx (JInt 1000)) (JStr ''K'') JNull, Key_load (JStr ''K''),
       Print Broadcasting_bit,
       Key_send (Signing_key 0) [(JStr ''B'', Finite False 1 (- 5), ''btc'')] Default_fee,
       Print (Broadcasted_bit ''xyz789''), Print (Explorer ''xyz789''),
       Unlink, Print Removed_pending, Print Broadcast_success], Inr ())"
  by (simp add: run_eval sats_1000)

text \<open>
  The scenario record with an empty \<^verbatim>\<open>raw_transaction_hex\<close>.
\<close>

theorem falsy_raw_hex_as_absent_witness:
  "pending_loads (sample_env (sample_record (JInt 1000) [(''raw_transaction_hex'', JStr [])])
          (Inr \<lparr>status_code = 200, resp_text = ''abc123''\<rparr>) (Inr ''xyz789''))
     = Inr (sample_record (JInt 1000) [(''raw_transaction_hex'', JStr [])])
   \<and> snd (verify_transaction_data (sample_record (JInt 1000) [(''raw_transaction_hex'', JStr [])]))
     = Inr True
   \<and> filter is_http_post (fst (main
         (sample_env (sample_record (JInt 1000) [(''raw_transaction_hex'', JStr [])])
          (Inr \<lparr>status_code = 200, resp_text = ''abc123''\<rparr>) (Inr ''xyz789'')))) = []
   \<and> main ((sample_env (sample_record (JInt 1000) [(''raw_transaction_hex'', JStr [])])
          (Inr \<lparr>status_code = 200, resp_text = ''abc123''\<rparr>) (Inr ''xyz789''))
         \<lparr>pending_loads := Inr (sample_record (JInt 1000) [])\<rparr>)
     = main (sample_env (sample_record (JInt 1000) [(''raw_transaction_hex'', JStr [])])
          (Inr \<lparr>status_code = 200, resp_text = ''abc123''\<rparr>) (Inr ''xyz789''))"
  using falsy_raw_hex_as_absent[of
      "sample_env (sample_record (JInt 1000) [(''raw_transaction_hex'', JStr [])])
          (Inr \<lparr>status_code = 200, resp_text = ''abc123''\<rparr>) (Inr ''xyz789'')"
      "[(''transaction'', sample_tx (JInt 1000)), (''private_key_wif'', JStr ''K''),
        (''address'', JStr ''A''), (''raw_transaction_hex'', JStr [])]"
      "[(''from_address'', JStr ''A''), (''to_address'', JStr ''B''), (''amount_sats'', JInt 1000)]"
      "JInt 1000" "Finite False 1 (- 5)" "JStr []"]
  by (simp add: sats_1000) (simp add: run_eval)

lemma run_blank_hex_null_amount:
  "main (sample_env (sample_record JNull [(''raw_transaction_hex'', JStr [])])
          (Inr \<lparr>status_code = 200, resp_text = ''abc123''\<rparr>) (Inr ''xyz789''))
   = ([Print Banner_rule, Print Banner_title, Print Banner_rule, Print Details_header,
       Print (Details_from (JStr ''A'')), Print (Details_to (JStr ''B''))], Inl TypeError)"
  by (simp add: run_eval satoshis_to_btc_def)

text \<open>
  C10 as stated fails for a record that passes the validator, holds the empty string
  as \<^verbatim>\<open>raw_transaction_hex\<close> and \<^verbatim>\<open>null\<close> as \<^verbatim>\<open>amount_sats\<close>: the run raises
  \<^verbatim>\<open>TypeError\<close> while printing the details and makes no call at all, so it does not
  proceed to the fallback.
\<close>

theorem blank_hex_null_amount_counterexample:
  "verify_transaction_data (sample_record JNull [(''raw_transaction_hex'', JStr [])])
     = ([], Inr True)
   \<and> py_getitem (sample_record JNull [(''raw_transaction_hex'', JStr [])]) ''raw_transaction_hex''
     = Inr (JStr [])
   \<and> calls (fst (main (sample_env (sample_record JNull [(''raw_transaction_hex'', JStr [])])
          (Inr \<lparr>status_code = 200, resp_text = ''abc123''\<rparr>) (Inr ''xyz789'')))) = []
   \<and> snd (main (sample_env (sample_record JNull [(''raw_transaction_hex'', JStr [])])
          (Inr \<lparr>status_code = 200, resp_text = ''abc123''\<rparr>) (Inr ''xyz789''))) = Inl TypeError"
  by (simp add: run_blank_hex_null_amount) (simp add: run_eval)

end
